theory Spec2Isabelle
  imports Complex_Main "HOL-Library.Word"
begin

section \<open>Points3DTileContent: a shallow embedding\<close>

text \<open>
  The development follows \<^verbatim>\<open>Source/Scene/Points3DTileContent.js\<close>. JavaScript
  exceptions are values of the type \<open>error\<close>; the object \<^verbatim>\<open>this\<close> is the record
  \<open>content\<close>, passed in and returned updated; every object the renderer would allocate
  is appended to a list of \<open>gpu_resource\<close>s in the order of its creation. The file is
  taken as it stands: the checks between the \<^verbatim>\<open>includeStart('debug')\<close> and
  \<^verbatim>\<open>includeEnd('debug')\<close> marks, which a release build strips, are part of it.
\<close>

subsection \<open>Bytes, errors and JavaScript values\<close>

type_synonym byte = "8 word"
type_synonym array_buffer = "byte list"

datatype error =
    DeveloperError string
  | RangeError
  | SyntaxError
  | TypeError
  | ReferenceError string
  | Reason string

text \<open>
  The value space of a decoded feature table: what \<^verbatim>\<open>JSON.parse\<close> returns, with
  numbers as rationals and arrays restricted to arrays of numbers.
\<close>

datatype json =
    JNull
  | JBool bool
  | JNumber rat
  | JString string
  | JArray "rat list"
  | JObject "(string \<times> json) list"

text \<open>Property access \<^verbatim>\<open>object.key\<close>: \<open>None\<close> is \<^verbatim>\<open>undefined\<close>.\<close>

fun member :: "json \<Rightarrow> string \<Rightarrow> json option" where
  "member (JObject kvs) k = map_of kvs k"
| "member j k = None"

datatype component_datatype = UNSIGNED_BYTE | UNSIGNED_SHORT | UNSIGNED_INT | FLOAT

text \<open>
  Modelled from the spec: the module \<^verbatim>\<open>Core/ComponentDatatype\<close> is not among the
  sources. Its members are the component types the spec and the source name (float,
  unsigned 16-bit, unsigned byte, and the unsigned 32-bit of the source's note on
  \<^verbatim>\<open>POINTS_LENGTH\<close>); reading any other member of the object gives \<^verbatim>\<open>undefined\<close>.
\<close>

definition ComponentDatatype :: "string \<Rightarrow> component_datatype option" where
  "ComponentDatatype name =
     map_of [(''UNSIGNED_BYTE'', UNSIGNED_BYTE), (''UNSIGNED_SHORT'', UNSIGNED_SHORT),
             (''UNSIGNED_INT'', UNSIGNED_INT), (''FLOAT'', FLOAT)] name"

text \<open>
  A value handed out by the feature table: an inline JSON value, or a typed view of the
  binary blob given by component type, byte offset and element count. The count of a
  per-point array is the JavaScript product \<^verbatim>\<open>pointsLength * k\<close>, kept unevaluated as
  \<open>PerPoint pointsLength k\<close>.
\<close>

datatype jsvalue =
    Json json
  | TypedArray "component_datatype option" json "count option"
and count =
    Count nat
  | PerPoint "jsvalue option" nat

text \<open>\<^verbatim>\<open>defined(value)\<close>: neither \<^verbatim>\<open>undefined\<close> nor \<^verbatim>\<open>null\<close>.\<close>

fun defined :: "jsvalue option \<Rightarrow> bool" where
  "defined None = False"
| "defined (Some (Json JNull)) = False"
| "defined (Some v) = True"

definition property :: "json \<Rightarrow> string \<Rightarrow> jsvalue option" where
  "property j k = map_option Json (member j k)"

subsection \<open>The feature table accessor\<close>

record feature_table_resources =
  json :: json
  buffer :: array_buffer
  featuresLength :: "jsvalue option"

definition Cesium3DTileFeatureTableResources :: "json \<Rightarrow> array_buffer \<Rightarrow> feature_table_resources" where
  "Cesium3DTileFeatureTableResources featureTableJSON featureTableBinary =
     \<lparr>json = featureTableJSON, buffer = featureTableBinary, featuresLength = None\<rparr>"

text \<open>
  Modelled from the spec: \<^verbatim>\<open>Cesium3DTileFeatureTableResources\<close> is not among the
  sources. The header maps a key to an inline value or to a descriptor holding a
  \<^verbatim>\<open>byteOffset\<close>; \<^verbatim>\<open>getGlobalProperty(name, componentType, count)\<close> gives
  \<^verbatim>\<open>undefined\<close> for a key the header lacks, the inline value as it is, and for a
  descriptor the typed view (type, offset, count) of the blob. Offsets are not validated.
\<close>

definition getGlobalProperty ::
  "feature_table_resources \<Rightarrow> string \<Rightarrow> component_datatype option \<Rightarrow> count option \<Rightarrow> jsvalue option" where
  "getGlobalProperty resources semantic componentType cnt =
     (case member (json resources) semantic of
        None \<Rightarrow> None
      | Some jsonValue \<Rightarrow>
          (case member jsonValue ''byteOffset'' of
             None \<Rightarrow> Some (Json jsonValue)
           | Some byteOffset \<Rightarrow>
               if byteOffset = JNull then Some (Json jsonValue)
               else Some (TypedArray componentType byteOffset cnt)))"

text \<open>
  Indexing \<^verbatim>\<open>value[i]\<close> as \<^verbatim>\<open>CONSTANT_COLOR\<close> needs it: an element of an inline
  array, or a byte of the blob seen through an unsigned-byte view.
\<close>

fun element :: "array_buffer \<Rightarrow> jsvalue \<Rightarrow> nat \<Rightarrow> rat option" where
  "element b (Json (JArray xs)) i = (if i < length xs then Some (xs ! i) else None)"
| "element b (TypedArray (Some UNSIGNED_BYTE) (JNumber off) (Some (Count n))) i =
     (if 0 \<le> off \<and> off = of_int \<lfloor>off\<rfloor> \<and> i < n \<and> nat \<lfloor>off\<rfloor> + i < length b
      then Some (of_nat (unat (b ! (nat \<lfloor>off\<rfloor> + i)))) else None)"
| "element b v i = None"

subsection \<open>Colours\<close>

record color =
  red :: rat
  green :: rat
  blue :: rat
  alpha :: rat

text \<open>
  Modelled from the spec: \<^verbatim>\<open>Core/Color\<close> is not among the sources. The default
  constant colour is opaque white, the fallback is opaque dark gray (the CSS colour
  \<^verbatim>\<open>#A9A9A9\<close>), and \<^verbatim>\<open>Color.fromBytes\<close> scales each byte by 1/255, a missing
  component counting as 255.
\<close>

definition WHITE :: color where
  "WHITE = \<lparr>red = 1, green = 1, blue = 1, alpha = 1\<rparr>"

definition DARKGRAY :: color where
  "DARKGRAY = \<lparr>red = 169 / 255, green = 169 / 255, blue = 169 / 255, alpha = 1\<rparr>"

definition byteToFloat :: "rat option \<Rightarrow> rat" where
  "byteToFloat number = (case number of None \<Rightarrow> 255 | Some n \<Rightarrow> n) / 255"

definition fromBytes :: "rat option \<Rightarrow> rat option \<Rightarrow> rat option \<Rightarrow> rat option \<Rightarrow> color" where
  "fromBytes r g b a =
     \<lparr>red = byteToFloat r, green = byteToFloat g, blue = byteToFloat b, alpha = byteToFloat a\<rparr>"

subsection \<open>The draw description\<close>

datatype content_state = UNLOADED | LOADING | PROCESSING | READY | FAILED

datatype deferred = Pending | Resolved | Rejected error

text \<open>A deferred settles once: later calls of \<^verbatim>\<open>resolve\<close> and \<^verbatim>\<open>reject\<close> change nothing.\<close>

fun resolve_deferred :: "deferred \<Rightarrow> deferred" where
  "resolve_deferred Pending = Resolved"
| "resolve_deferred d = d"

fun reject :: "error \<Rightarrow> deferred \<Rightarrow> deferred" where
  "reject e Pending = Rejected e"
| "reject e d = d"

datatype gl_context = GLContext nat

record vertex_attribute =
  index :: nat
  vertexBuffer :: "jsvalue option"
  componentsPerAttribute :: nat
  componentDatatype :: "component_datatype option"
  normalize_flag :: bool
  offsetInBytes :: nat
  strideInBytes :: nat

record vertex_array =
  va_context :: gl_context
  attributes :: "vertex_attribute list"

record shader_program =
  sp_context :: gl_context
  vertexShaderSource :: string
  fragmentShaderSource :: string
  attributeLocations :: "(string \<times> nat) list"

datatype blending_state = ALPHA_BLEND

text \<open>The render state object literal: \<open>None\<close> is a key the literal does not have.\<close>

record render_state =
  depthTest_enabled :: bool
  depthMask :: "bool option"
  blending :: "blending_state option"

datatype pass_id = GLOBE | GROUND | OPAQUE | TRANSLUCENT | OVERLAY

text \<open>
  Modelled from the spec: the module \<^verbatim>\<open>Scene/Pass\<close> is not among the sources. It is
  an object of render-pass constants, the opaque and the translucent pass among them;
  reading a member it does not have gives \<^verbatim>\<open>undefined\<close>.
\<close>

definition Pass :: "string \<Rightarrow> pass_id option" where
  "Pass name =
     map_of [(''GLOBE'', GLOBE), (''GROUND'', GROUND), (''OPAQUE'', OPAQUE),
             (''TRANSLUCENT'', TRANSLUCENT), (''OVERLAY'', OVERLAY)] name"

datatype primitive_type = POINTS | LINES | TRIANGLES

datatype uniform_source = PointSize | ConstantColor | QuantizedVolumeScale

record bounding_sphere =
  center :: "rat \<times> rat \<times> rat"
  radius :: rat

text \<open>
  The options of the draw command. The model matrix (a fresh matrix, rewritten by every
  \<^verbatim>\<open>update\<close>) and the owner (a reference back to the content) are left out.
\<close>

record draw_command =
  boundingVolume :: bounding_sphere
  cull :: bool
  primitiveType :: primitive_type
  vertexArray :: vertex_array
  count :: "jsvalue option"
  shaderProgram :: shader_program
  uniformMap :: "(string \<times> uniform_source) list"
  renderState :: render_state
  pass :: "pass_id option"

datatype gpu_resource =
    CreatedVertexArray vertex_array
  | CreatedShaderProgram shader_program
  | CreatedRenderState render_state
  | CreatedDrawCommand draw_command

text \<open>
  The fields of \<^verbatim>\<open>this\<close>. \<open>drawCommand = None\<close> is the empty command of the
  constructor. \<open>destroyed\<close> is the mark \<^verbatim>\<open>destroyObject\<close> leaves on the object.
\<close>

record content =
  url :: string
  tileBoundingSphere :: bounding_sphere
  constantColor :: color
  pointSize :: rat
  quantizedVolumeScale :: "jsvalue option"
  drawCommand :: "draw_command option"
  state :: content_state
  contentReadyToProcessPromise :: deferred
  readyPromise :: deferred
  destroyed :: bool

definition Points3DTileContent :: "bounding_sphere \<Rightarrow> string \<Rightarrow> content" where
  "Points3DTileContent sphere u =
     \<lparr>url = u, tileBoundingSphere = sphere, constantColor = WHITE, pointSize = 2,
      quantizedVolumeScale = None, drawCommand = None, state = UNLOADED,
      contentReadyToProcessPromise = Pending, readyPromise = Pending, destroyed = False\<rparr>"

text \<open>
  What the function reads from outside the file: the built-in \<^verbatim>\<open>JSON.parse\<close>
  (\<open>None\<close> when it throws) and the free identifier \<^verbatim>\<open>context\<close>, which the module
  neither declares nor imports (\<open>None\<close> when no global of that name exists).
\<close>

record env =
  JSON_parse :: "string \<Rightarrow> json option"
  global_context :: "gl_context option"

subsection \<open>Reading the container\<close>

text \<open>\<^verbatim>\<open>defaultValue(a, b)\<close>: the second argument stands in for an undefined first.\<close>

definition defaultValue :: "'a option \<Rightarrow> 'a \<Rightarrow> 'a" where
  "defaultValue a b = (case a of None \<Rightarrow> b | Some x \<Rightarrow> x)"

definition sizeOfUint32 :: nat where
  "sizeOfUint32 = 4"

text \<open>\<^verbatim>\<open>DataView.getUint32(byteOffset, true)\<close>: little-endian, a \<^verbatim>\<open>RangeError\<close> out of range.\<close>

definition getUint32 :: "array_buffer \<Rightarrow> nat \<Rightarrow> error + 32 word" where
  "getUint32 view byteOffset =
     (if byteOffset + 4 \<le> length view
      then Inr (of_nat (unat (view ! byteOffset) + 256 * unat (view ! (byteOffset + 1))
                 + 65536 * unat (view ! (byteOffset + 2)) + 16777216 * unat (view ! (byteOffset + 3))))
      else Inl RangeError)"

text \<open>
  Modelled from the spec: \<^verbatim>\<open>Core/getStringFromTypedArray\<close> and \<^verbatim>\<open>Core/getMagic\<close>
  are not among the sources. The first decodes \<open>byteLength\<close> bytes from \<open>byteOffset\<close> on,
  one character per byte; the magic is the 4-byte tag at the offset. Both stop at the end
  of the array.
\<close>

definition fromCharCode :: "byte \<Rightarrow> char" where
  "fromCharCode b =
     (let n = unat b
      in Char (odd n) (odd (n div 2)) (odd (n div 4)) (odd (n div 8))
              (odd (n div 16)) (odd (n div 32)) (odd (n div 64)) (odd (n div 128)))"

definition getStringFromTypedArray :: "array_buffer \<Rightarrow> nat \<Rightarrow> nat \<Rightarrow> string" where
  "getStringFromTypedArray uint8Array byteOffset byteLength =
     map fromCharCode (take byteLength (drop byteOffset uint8Array))"

definition getMagic :: "array_buffer \<Rightarrow> nat \<Rightarrow> string" where
  "getMagic uint8Array byteOffset = getStringFromTypedArray uint8Array byteOffset 4"

text \<open>\<^verbatim>\<open>new Uint8Array(arrayBuffer, byteOffset, length)\<close>: a \<^verbatim>\<open>RangeError\<close> out of range.\<close>

definition Uint8Array :: "array_buffer \<Rightarrow> nat \<Rightarrow> nat \<Rightarrow> error + array_buffer" where
  "Uint8Array arrayBuffer byteOffset len =
     (if byteOffset + len \<le> length arrayBuffer
      then Inr (take len (drop byteOffset arrayBuffer)) else Inl RangeError)"

text \<open>The decimal digits of a number, as string concatenation prints it.\<close>

function digits :: "nat \<Rightarrow> string" where
  "digits n =
     (if n < 10 then [fromCharCode (of_nat (48 + n))]
      else digits (n div 10) @ [fromCharCode (of_nat (48 + n mod 10))])"
  by pat_completeness auto
termination
  by (relation "measure id") auto

declare digits.simps [simp del]

definition toString :: "32 word \<Rightarrow> string" where
  "toString w = digits (unat w)"

text \<open>
  What \<^verbatim>\<open>initialize\<close> has in hand once the container is read (lines 158 to 205):
  the offsets at which it read the two tables, the tables, and the point count.
\<close>

record tile_tables =
  jsonByteOffset :: nat
  binaryByteOffset :: nat
  endByteOffset :: nat
  tableString :: string
  tableJSON :: json
  tableBinary :: array_buffer
  tableResources :: feature_table_resources
  pointCount :: "jsvalue option"

text \<open>Sequencing: an exception ends the function with that exception.\<close>

definition bind_err :: "error + 'a \<Rightarrow> ('a \<Rightarrow> error + 'b) \<Rightarrow> error + 'b" where
  "bind_err r f = (case r of Inl err \<Rightarrow> Inl err | Inr x \<Rightarrow> f x)"

definition parse_json :: "env \<Rightarrow> string \<Rightarrow> error + json" where
  "parse_json e str = (case JSON_parse e str of None \<Rightarrow> Inl SyntaxError | Some j \<Rightarrow> Inr j)"

definition read_tables :: "env \<Rightarrow> array_buffer \<Rightarrow> nat option \<Rightarrow> error + tile_tables" where
  "read_tables e arrayBuffer byteOffset_arg =
     (let byteOffset = defaultValue byteOffset_arg 0;
          uint8Array = arrayBuffer;
          magic = getMagic uint8Array byteOffset
      in
      if magic \<noteq> ''pnts''
      then Inl (DeveloperError (''Invalid Points tile.  Expected magic=pnts.  Read magic='' @ magic))
      else
        (let view = arrayBuffer;
             byteOffset = byteOffset + sizeOfUint32
         in
         bind_err (getUint32 view byteOffset) (\<lambda>version.
         if version \<noteq> 1
         then Inl (DeveloperError (''Only Points tile version 1 is supported.  Version ''
                     @ toString version @ '' is not.''))
         else
           (let byteOffset = byteOffset + sizeOfUint32;
                byteOffset = byteOffset + sizeOfUint32
            in
            bind_err (getUint32 view byteOffset) (\<lambda>featureTableJSONByteLength.
            if featureTableJSONByteLength = 0
            then Inl (DeveloperError ''Feature table must have a byte length greater than zero'')
            else
              (let byteOffset = byteOffset + sizeOfUint32
               in
               bind_err (getUint32 view byteOffset) (\<lambda>featureTableBinaryByteLength.
               (let byteOffset = byteOffset + sizeOfUint32;
                    jsonOffset = byteOffset;
                    featureTableString =
                      getStringFromTypedArray uint8Array byteOffset (unat featureTableJSONByteLength)
                in
                bind_err (parse_json e featureTableString) (\<lambda>featureTableJSON.
                (let byteOffset = byteOffset + unat featureTableJSONByteLength;
                     binaryOffset = byteOffset
                 in
                 bind_err (Uint8Array arrayBuffer byteOffset (unat featureTableBinaryByteLength))
                   (\<lambda>featureTableBinary.
                 (let byteOffset = byteOffset + unat featureTableBinaryByteLength;
                      featureTableResources =
                        Cesium3DTileFeatureTableResources featureTableJSON featureTableBinary;
                      pointsLength = getGlobalProperty featureTableResources ''POINTS_LENGTH'' None None;
                      featureTableResources = featureTableResources\<lparr>featuresLength := pointsLength\<rparr>
                  in
                  if \<not> defined pointsLength
                  then Inl (DeveloperError
                              ''Feature table global property: POINTS_LENGTH must be defined'')
                  else Inr \<lparr>jsonByteOffset = jsonOffset, binaryByteOffset = binaryOffset,
                            endByteOffset = byteOffset, tableString = featureTableString,
                            tableJSON = featureTableJSON, tableBinary = featureTableBinary,
                            tableResources = featureTableResources,
                            pointCount = pointsLength\<rparr>))))))))))))"

subsection \<open>Resolving the attribute variants\<close>

text \<open>
  Lines 207 to 228. The result is \<open>(positions, isQuantized)\<close>; the second component of
  the pair is \<^verbatim>\<open>this\<close> as the exception or the return leaves it.
\<close>

definition get_positions ::
  "tile_tables \<Rightarrow> content \<Rightarrow> (error + jsvalue option \<times> bool) \<times> content" where
  "get_positions t this =
     (let featureTableJSON = tableJSON t;
          featureTableResources = tableResources t;
          pointsLength = pointCount t;
          check = (\<lambda>positions quantized that.
            if \<not> defined positions
            then (Inl (DeveloperError ''Either POSITION or POSITION_QUANTIZED must be defined.''), that)
            else (Inr (positions, quantized), that))
      in
      if defined (property featureTableJSON ''POSITION'')
      then check (getGlobalProperty featureTableResources ''POSITION''
                    (ComponentDatatype ''FLOAT'') (Some (PerPoint pointsLength 3))) False this
      else if defined (property featureTableJSON ''POSITION_QUANTIZED'')
      then
        (let positions = getGlobalProperty featureTableResources ''POSITION_QUANTIZED''
                           (ComponentDatatype ''UNSIGNED_SHORT'') (Some (PerPoint pointsLength 3));
             that = this\<lparr>quantizedVolumeScale :=
                      getGlobalProperty featureTableResources ''QUANTIZED_VOLUME_SCALE''
                        (ComponentDatatype ''FLOAT'') (Some (Count 3))\<rparr>
         in
         if \<not> defined (quantizedVolumeScale that)
         then (Inl (DeveloperError
                 ''Global property: QUANTIZED_VOLUME_SCALE must be defined for quantized positions.''),
               that)
         else check positions True that)
      else check None False this)"

text \<open>
  Lines 230 to 247. The result is \<open>(colors, isTranslucent, isConstantColor)\<close>. Indexing
  an undefined \<^verbatim>\<open>constantColor\<close> is a \<^verbatim>\<open>TypeError\<close>.
\<close>

definition get_colors ::
  "tile_tables \<Rightarrow> content \<Rightarrow> (error + jsvalue option \<times> bool \<times> bool) \<times> content" where
  "get_colors t this =
     (let featureTableJSON = tableJSON t;
          featureTableResources = tableResources t;
          pointsLength = pointCount t
      in
      if defined (property featureTableJSON ''RGBA'')
      then (Inr (getGlobalProperty featureTableResources ''RGBA''
                   (ComponentDatatype ''UNSIGNED_BYTE'') (Some (PerPoint pointsLength 4)),
                 True, False), this)
      else if defined (property featureTableJSON ''RGB'')
      then (Inr (getGlobalProperty featureTableResources ''RGB''
                   (ComponentDatatype ''UNISGNED_BYTE'') (Some (PerPoint pointsLength 3)),
                 False, False), this)
      else if defined (property featureTableJSON ''CONSTANT_COLOR'')
      then
        (case getGlobalProperty featureTableResources ''CONSTANT_COLOR''
                (ComponentDatatype ''UNSIGNED_BYTE'') (Some (Count 4)) of
           None \<Rightarrow> (Inl TypeError, this)
         | Some c \<Rightarrow>
             (let b = buffer featureTableResources;
                  that = this\<lparr>constantColor :=
                           fromBytes (element b c 0) (element b c 1) (element b c 2) (element b c 3)\<rparr>
              in (Inr (None, alpha (constantColor that) < 1, True), that)))
      else (Inr (None, False, False), this))"

text \<open>Lines 249 to 258. The result is \<open>(normals, isOctEncoded16P)\<close>.\<close>

definition get_normals :: "tile_tables \<Rightarrow> jsvalue option \<times> bool" where
  "get_normals t =
     (let featureTableJSON = tableJSON t;
          featureTableResources = tableResources t;
          pointsLength = pointCount t
      in
      if defined (property featureTableJSON ''NORMAL'')
      then (getGlobalProperty featureTableResources ''NORMAL''
              (ComponentDatatype ''FLOAT'') (Some (PerPoint pointsLength 3)), False)
      else if defined (property featureTableJSON ''NORMAL_OCT16P'')
      then (getGlobalProperty featureTableResources ''NORMAL_OCT16P''
              (ComponentDatatype ''UNSIGNED_BYTE'') (Some (PerPoint pointsLength 2)), True)
      else (None, False))"

subsection \<open>Synthesizing the shaders\<close>

record flags =
  isQuantized :: bool
  hasColors :: bool
  isTranslucent :: bool
  hasNormals :: bool
  isOctEncoded16P :: bool

text \<open>
  Lines 270 to 327: the vertex shader source. The source appends to \<^verbatim>\<open>vs\<close>
  statement by statement; the definition is the string so accumulated, a branch that
  appends nothing contributing the empty string.
\<close>

definition build_vs :: "flags \<Rightarrow> string" where
  "build_vs f =
     ''attribute vec3 a_position; \<newline>'' @
     ''varying vec4 v_color; \<newline>'' @
     ''uniform float u_pointSize; \<newline>'' @
     ''uniform vec4 u_constantColor; \<newline>'' @
     (if hasColors f
      then (if isTranslucent f
            then ''attribute vec4 a_color; \<newline>''
            else ''attribute vec3 a_color; \<newline>'')
      else []) @
     (if hasNormals f
      then (if isOctEncoded16P f
            then ''attribute vec2 a_normal; \<newline>''
            else ''attribute vec3 a_normal; \<newline>'')
      else []) @
     (if isQuantized f
      then ''uniform vec3 u_quantizedVolumeScale; \<newline>''
      else []) @
     ''void main() \<newline>'' @
     ''{ \<newline>'' @
     (if hasColors f
      then (if isTranslucent f
            then ''    vec4 color = a_color * u_constantColor; \<newline>''
            else ''    vec4 color =  vec4(a_color * u_constantColor.rgb, u_constantColor.a); \<newline>'')
      else ''    vec4 color = u_constantColor; \<newline>'') @
     (if hasNormals f
      then (if isOctEncoded16P f
            then ''    vec3 normal = czm_octDecode(a_normal); \<newline>''
            else ''    vec3 normal = a_normal; \<newline>'') @
           ''    normal = czm_normal * normal; \<newline>'' @
           ''    color *= max(dot(normal, czm_sunDirectionEC), 0.0); \<newline>''
      else []) @
     (if isQuantized f
      then ''    vec3 position = a_position * u_quantizedVolumeScale; \<newline>''
      else ''    vec3 position = a_position; \<newline>'') @
     ''    v_color = color; \<newline>'' @
     ''    gl_Position = czm_modelViewProjection * vec4(position, 1.0); \<newline>'' @
     ''    gl_PointSize = pointSize; \<newline>'' @
     ''} \<newline>''"

text \<open>Lines 329 to 333: the fragment shader source.\<close>

definition build_fs :: string where
  "build_fs = ''varying vec4 v_color; \<newline>'' @
              ''void main() \<newline>'' @
              ''{ \<newline>'' @
              ''    gl_FragColor = v_color; \<newline>'' @
              ''} \<newline>''"

subsection \<open>Assembling the draw description\<close>

text \<open>
  Modelled from the spec: \<^verbatim>\<open>Core/combine\<close> is not among the sources. It merges two
  objects into one; on a list of bindings read with \<open>map_of\<close>, a key of the first object
  wins.
\<close>

definition combine :: "('k \<times> 'v) list \<Rightarrow> ('k \<times> 'v) list \<Rightarrow> ('k \<times> 'v) list" where
  "combine object1 object2 = object1 @ object2"

text \<open>Lines 335 to 351.\<close>

definition build_uniformMap :: "flags \<Rightarrow> (string \<times> uniform_source) list" where
  "build_uniformMap f =
     (let uniformMap = [(''u_pointSize'', PointSize), (''u_constantColor'', ConstantColor)]
      in if isQuantized f
         then combine uniformMap [(''u_quantizedVolumeScale'', QuantizedVolumeScale)]
         else uniformMap)"

definition positionAttributeLocation :: nat where
  "positionAttributeLocation = 0"

definition colorAttributeLocation :: nat where
  "colorAttributeLocation = 1"

definition normalAttributeLocation :: nat where
  "normalAttributeLocation = 2"

text \<open>
  Lines 357 to 415: the vertex attribute list, in the order in which the source pushes
  onto \<^verbatim>\<open>attributes\<close>.
\<close>

definition build_attributes ::
  "flags \<Rightarrow> jsvalue option \<Rightarrow> jsvalue option \<Rightarrow> jsvalue option \<Rightarrow> vertex_attribute list" where
  "build_attributes f positions colors normals =
     (if isQuantized f
      then [\<lparr>index = positionAttributeLocation, vertexBuffer = positions,
              componentsPerAttribute = 3,
              componentDatatype = ComponentDatatype ''UNSIGNED_SHORT'',
              normalize_flag = True, offsetInBytes = 0, strideInBytes = 0\<rparr>]
      else [\<lparr>index = positionAttributeLocation, vertexBuffer = positions,
              componentsPerAttribute = 3,
              componentDatatype = ComponentDatatype ''FLOAT'',
              normalize_flag = False, offsetInBytes = 0, strideInBytes = 0\<rparr>]) @
     (if hasColors f
      then [\<lparr>index = colorAttributeLocation, vertexBuffer = colors,
              componentsPerAttribute = (if isTranslucent f then 4 else 3),
              componentDatatype = ComponentDatatype ''UNSIGNED_BYTE'',
              normalize_flag = True, offsetInBytes = 0, strideInBytes = 0\<rparr>]
      else []) @
     (if hasNormals f
      then (if isOctEncoded16P f
            then [\<lparr>index = normalAttributeLocation, vertexBuffer = normals,
                    componentsPerAttribute = 2,
                    componentDatatype = ComponentDatatype ''UNSIGNED_BYTE'',
                    normalize_flag = False, offsetInBytes = 0, strideInBytes = 0\<rparr>]
            else [\<lparr>index = normalAttributeLocation, vertexBuffer = normals,
                    componentsPerAttribute = 3,
                    componentDatatype = ComponentDatatype ''FLOAT'',
                    normalize_flag = False, offsetInBytes = 0, strideInBytes = 0\<rparr>])
      else [])"

text \<open>Lines 422 to 436.\<close>

definition build_attributeLocations :: "flags \<Rightarrow> (string \<times> nat) list" where
  "build_attributeLocations f =
     combine
       (combine [(''a_position'', positionAttributeLocation)]
          (if hasColors f then [(''a_color'', colorAttributeLocation)] else []))
       (if hasNormals f then [(''a_normal'', normalAttributeLocation)] else [])"

text \<open>Lines 445 to 456: the render state literal \<^verbatim>\<open>rs\<close>.\<close>

definition build_rs :: "flags \<Rightarrow> render_state" where
  "build_rs f =
     (let rs = \<lparr>depthTest_enabled = True, depthMask = None, blending = None\<rparr>
      in if isTranslucent f
         then rs\<lparr>depthMask := Some False, blending := Some ALPHA_BLEND\<rparr>
         else rs)"

text \<open>Line 468: the pass of the draw command.\<close>

definition build_pass :: "flags \<Rightarrow> pass_id option" where
  "build_pass f = (if isTranslucent f then Pass ''isTranslucent'' else Pass ''OPAQUE'')"

text \<open>
  Lines 417 to 470, given the rendering context: the vertex array, the shader program,
  the cached render state and the draw command, in the order of their creation.
\<close>

definition build_drawCommand ::
  "gl_context \<Rightarrow> content \<Rightarrow> flags \<Rightarrow> jsvalue option \<Rightarrow> jsvalue option \<Rightarrow> jsvalue option
     \<Rightarrow> jsvalue option \<Rightarrow> draw_command \<times> gpu_resource list" where
  "build_drawCommand ctx this f pointsLength positions colors normals =
     (let vs = build_vs f;
          fs = build_fs;
          uniforms = build_uniformMap f;
          attrs = build_attributes f positions colors normals;
          va = \<lparr>va_context = ctx, attributes = attrs\<rparr>;
          sp = \<lparr>sp_context = ctx, vertexShaderSource = vs, fragmentShaderSource = fs,
                attributeLocations = build_attributeLocations f\<rparr>;
          rs = build_rs f;
          command = \<lparr>boundingVolume = tileBoundingSphere this, cull = False,
                     primitiveType = POINTS, vertexArray = va, count = pointsLength,
                     shaderProgram = sp, uniformMap = uniforms, renderState = rs,
                     pass = build_pass f\<rparr>
      in (command, [CreatedVertexArray va, CreatedShaderProgram sp, CreatedRenderState rs,
                    CreatedDrawCommand command]))"

subsection \<open>initialize\<close>

text \<open>
  Lines 207 to 268 together: the buffers of the three attributes, the constant-colour
  mark and the flag tuple that the rest of the function branches on.
\<close>

record resolved =
  positionsOf :: "jsvalue option"
  colorsOf :: "jsvalue option"
  normalsOf :: "jsvalue option"
  constantColorFlag :: bool
  variant :: flags

definition resolve :: "tile_tables \<Rightarrow> content \<Rightarrow> (error + resolved) \<times> content" where
  "resolve t this =
     (case get_positions t this of
        (Inl err, this1) \<Rightarrow> (Inl err, this1)
      | (Inr (positions, quantized), this1) \<Rightarrow>
          (case get_colors t this1 of
             (Inl err, this2) \<Rightarrow> (Inl err, this2)
           | (Inr (colors, translucent, isConstantColor), this2) \<Rightarrow>
               (let (normals, oct) = get_normals t;
                    f = \<lparr>isQuantized = quantized, hasColors = defined colors,
                         isTranslucent = translucent, hasNormals = defined normals,
                         isOctEncoded16P = oct\<rparr>;
                    this3 = (if \<not> hasColors f \<and> \<not> isConstantColor
                             then this2\<lparr>constantColor := DARKGRAY\<rparr> else this2)
                in (Inr \<lparr>positionsOf = positions, colorsOf = colors, normalsOf = normals,
                          constantColorFlag = isConstantColor, variant = f\<rparr>, this3))))"

text \<open>
  The whole of \<^verbatim>\<open>initialize(arrayBuffer, byteOffset)\<close>. The result is the exception
  thrown (\<open>None\<close> for a normal return), \<^verbatim>\<open>this\<close> as the call leaves it, and the
  renderer objects created during the call.
\<close>

definition initialize ::
  "env \<Rightarrow> content \<Rightarrow> array_buffer \<Rightarrow> nat option \<Rightarrow> error option \<times> content \<times> gpu_resource list" where
  "initialize e this arrayBuffer byteOffset =
     (case read_tables e arrayBuffer byteOffset of
        Inl err \<Rightarrow> (Some err, this, [])
      | Inr t \<Rightarrow>
          (case resolve t this of
             (Inl err, this1) \<Rightarrow> (Some err, this1, [])
           | (Inr r, this1) \<Rightarrow>
               (case global_context e of
                  None \<Rightarrow> (Some (ReferenceError ''context is not defined''), this1, [])
                | Some ctx \<Rightarrow>
                    (let (command, created) =
                           build_drawCommand ctx this1 (variant r) (pointCount t)
                             (positionsOf r) (colorsOf r) (normalsOf r);
                         this2 = this1\<lparr>drawCommand := Some command\<rparr>;
                         this3 = this2\<lparr>state := PROCESSING\<rparr>;
                         this4 = this3\<lparr>contentReadyToProcessPromise :=
                                   resolve_deferred (contentReadyToProcessPromise this3)\<rparr>;
                         this5 = this4\<lparr>state := READY\<rparr>;
                         this6 = this5\<lparr>readyPromise := resolve_deferred (readyPromise this5)\<rparr>
                     in (None, this6, created)))))"

subsection \<open>The request and its continuation\<close>

text \<open>
  Modelled from the spec: \<^verbatim>\<open>Core/destroyObject\<close> is not among the sources. It marks
  the object destroyed, and from then on \<^verbatim>\<open>isDestroyed()\<close> answers true; until then
  the function of this file answers false.
\<close>

definition destroy :: "content \<Rightarrow> content" where
  "destroy this = this\<lparr>destroyed := True\<rparr>"

definition isDestroyed :: "content \<Rightarrow> bool" where
  "isDestroyed this = (if destroyed this then True else False)"

text \<open>
  \<^verbatim>\<open>request()\<close>: \<open>scheduled\<close> says whether the request scheduler returned a promise.
\<close>

definition request :: "bool \<Rightarrow> content \<Rightarrow> content" where
  "request scheduled this = (if scheduled then this\<lparr>state := LOADING\<rparr> else this)"

text \<open>The function passed to \<^verbatim>\<open>then\<close> (lines 142 to 147).\<close>

definition on_fulfilled ::
  "env \<Rightarrow> content \<Rightarrow> array_buffer \<Rightarrow> error option \<times> content \<times> gpu_resource list" where
  "on_fulfilled e that arrayBuffer =
     (if isDestroyed that then (Some (Reason ''tileset is destroyed''), that, [])
      else initialize e that arrayBuffer None)"

text \<open>The function passed to \<^verbatim>\<open>otherwise\<close> (lines 147 to 150).\<close>

definition on_rejected :: "error \<Rightarrow> content \<Rightarrow> content" where
  "on_rejected err that =
     (let that1 = that\<lparr>state := FAILED\<rparr>
      in that1\<lparr>readyPromise := reject err (readyPromise that1)\<rparr>)"

text \<open>
  The chain \<^verbatim>\<open>promise.then(...).otherwise(...)\<close> once the fetch settles with a buffer
  or with an error: an exception or a rejection of the first function goes to the second,
  and the second returns normally, so the chain ends fulfilled. The first component of
  the result is the rejection the chain ends with, if any.
\<close>

definition settle ::
  "env \<Rightarrow> content \<Rightarrow> error + array_buffer \<Rightarrow> error option \<times> content \<times> gpu_resource list" where
  "settle e that fetched =
     (case fetched of
        Inl err \<Rightarrow> (None, on_rejected err that, [])
      | Inr arrayBuffer \<Rightarrow>
          (case on_fulfilled e that arrayBuffer of
             (None, that1, created) \<Rightarrow> (None, that1, created)
           | (Some err, that1, created) \<Rightarrow> (None, on_rejected err that1, created)))"

section \<open>Auxiliary definitions\<close>

subsection \<open>The parts of the vertex shader\<close>

text \<open>The two sources handed to the shader program, as one value.\<close>

definition shader_sources :: "flags \<Rightarrow> string \<times> string" where
  "shader_sources f = (build_vs f, build_fs)"

text \<open>
  The three optional declarations of the vertex shader and everything below the line
  \<^verbatim>\<open>void main()\<close>, named so that the source can be taken apart.
\<close>

definition vs_colorDecl :: "flags \<Rightarrow> string" where
  "vs_colorDecl f =
     (if hasColors f
      then (if isTranslucent f
            then ''attribute vec4 a_color; \<newline>''
            else ''attribute vec3 a_color; \<newline>'')
      else [])"

definition vs_normalDecl :: "flags \<Rightarrow> string" where
  "vs_normalDecl f =
     (if hasNormals f
      then (if isOctEncoded16P f
            then ''attribute vec2 a_normal; \<newline>''
            else ''attribute vec3 a_normal; \<newline>'')
      else [])"

definition vs_quantDecl :: "flags \<Rightarrow> string" where
  "vs_quantDecl f =
     (if isQuantized f
      then ''uniform vec3 u_quantizedVolumeScale; \<newline>''
      else [])"

definition vs_body :: "flags \<Rightarrow> string" where
  "vs_body f =
     ''{ \<newline>'' @
     (if hasColors f
      then (if isTranslucent f
            then ''    vec4 color = a_color * u_constantColor; \<newline>''
            else ''    vec4 color =  vec4(a_color * u_constantColor.rgb, u_constantColor.a); \<newline>'')
      else ''    vec4 color = u_constantColor; \<newline>'') @
     (if hasNormals f
      then (if isOctEncoded16P f
            then ''    vec3 normal = czm_octDecode(a_normal); \<newline>''
            else ''    vec3 normal = a_normal; \<newline>'') @
           ''    normal = czm_normal * normal; \<newline>'' @
           ''    color *= max(dot(normal, czm_sunDirectionEC), 0.0); \<newline>''
      else []) @
     (if isQuantized f
      then ''    vec3 position = a_position * u_quantizedVolumeScale; \<newline>''
      else ''    vec3 position = a_position; \<newline>'') @
     ''    v_color = color; \<newline>'' @
     ''    gl_Position = czm_modelViewProjection * vec4(position, 1.0); \<newline>'' @
     ''    gl_PointSize = pointSize; \<newline>'' @
     ''} \<newline>''"

text \<open>
  What a source text starts with: enough to tell the optional declarations and the line
  \<^verbatim>\<open>void main()\<close> apart.
\<close>

definition probe :: "string \<Rightarrow> string" where
  "probe s = (if hd s = CHR ''v'' then ''v'' else take 18 s)"

subsection \<open>Identifiers of a shader source\<close>

text \<open>
  A reading of a shader source that is enough to tell which names it declares and which
  it uses. The source is split into lines and each line into words (letters, digits,
  underscores and dots, so that a field selection and a decimal number stay one word).
  A line that starts with a storage qualifier declares its last word; a line that starts
  with a type declares its second word and uses the names behind it (the line
  \<^verbatim>\<open>void main()\<close> declares nothing); any other line uses its names. Numbers are no
  names, a field selection counts for the name in front of the dot, and the built-in
  names need no declaration: the types, the functions \<^verbatim>\<open>max\<close> and \<^verbatim>\<open>dot\<close>, the
  variables \<^verbatim>\<open>gl_...\<close>, and the names \<^verbatim>\<open>czm_...\<close> that the renderer's shader
  pipeline supplies.
\<close>

fun lines_of :: "string \<Rightarrow> string list" where
  "lines_of [] = []"
| "lines_of (c # cs) =
     (if c = CHR 0x0A then [] # lines_of cs
      else (case lines_of cs of [] \<Rightarrow> [[c]] | l # ls \<Rightarrow> (c # l) # ls))"

definition is_ident_char :: "char \<Rightarrow> bool" where
  "is_ident_char c =
     (let n = (of_char c :: nat)
      in (48 \<le> n \<and> n \<le> 57) \<or> (65 \<le> n \<and> n \<le> 90) \<or> n = 95 \<or> (97 \<le> n \<and> n \<le> 122)
         \<or> n = 46)"

fun split_words :: "string \<Rightarrow> string \<Rightarrow> string list" where
  "split_words cur [] = (if cur = [] then [] else [cur])"
| "split_words cur (c # cs) =
     (if is_ident_char c then split_words (cur @ [c]) cs
      else if cur = [] then split_words [] cs
      else cur # split_words [] cs)"

definition words_of :: "string \<Rightarrow> string list" where
  "words_of s = split_words [] s"

definition base_name :: "string \<Rightarrow> string" where
  "base_name w = takeWhile (\<lambda>c. c \<noteq> CHR ''.'') w"

definition is_number :: "string \<Rightarrow> bool" where
  "is_number w = (case w of [] \<Rightarrow> False | c # cs \<Rightarrow> 48 \<le> (of_char c :: nat) \<and> (of_char c :: nat) \<le> 57)"

definition glsl_qualifiers :: "string list" where
  "glsl_qualifiers = [''attribute'', ''uniform'', ''varying'']"

definition glsl_types :: "string list" where
  "glsl_types = [''void'', ''float'', ''vec2'', ''vec3'', ''vec4'']"

definition is_builtin :: "string \<Rightarrow> bool" where
  "is_builtin w =
     (w \<in> set glsl_types \<or> w \<in> set [''max'', ''dot''] \<or> take 3 w = ''gl_'' \<or> take 4 w = ''czm_'')"

definition used_names :: "string list \<Rightarrow> string list" where
  "used_names ws = filter (\<lambda>w. \<not> is_builtin w) (map base_name (filter (\<lambda>w. \<not> is_number w) ws))"

definition line_info :: "string \<Rightarrow> string option \<times> string list" where
  "line_info l =
     (case words_of l of
        [] \<Rightarrow> (None, [])
      | w # ws \<Rightarrow>
          if w \<in> set glsl_qualifiers then (Some (last (w # ws)), [])
          else if w \<in> set glsl_types
          then (case ws of
                  [] \<Rightarrow> (None, [])
                | name # rest \<Rightarrow> if name = ''main'' then (None, []) else (Some name, used_names rest))
          else (None, used_names (w # ws)))"

text \<open>
  The names used before a declaration of theirs, line by line: \<open>declared\<close> holds the
  names declared so far, and the name a line declares counts from the next line on.
\<close>

fun scan :: "string list \<Rightarrow> (string option \<times> string list) list \<Rightarrow> string list" where
  "scan declared [] = []"
| "scan declared ((d, us) # rest) =
     filter (\<lambda>u. u \<notin> set declared) us
       @ scan (case d of None \<Rightarrow> declared | Some n \<Rightarrow> n # declared) rest"

definition undeclared_identifiers :: "string \<Rightarrow> string list" where
  "undeclared_identifiers s = scan [] (map line_info (lines_of s))"

definition declared_identifiers :: "string \<Rightarrow> string list" where
  "declared_identifiers s = concat (map (\<lambda>(d, us). case d of None \<Rightarrow> [] | Some n \<Rightarrow> [n]) (map line_info (lines_of s)))"

definition used_identifiers :: "string \<Rightarrow> string list" where
  "used_identifiers s = concat (map snd (map line_info (lines_of s)))"

subsection \<open>The format failures of the spec\<close>

text \<open>
  The spec's list of fatal format errors, read in the order of the container's fields,
  each field counting only where the buffer is long enough to hold it: a wrong magic,
  a version other than 1, a feature table JSON of length zero, a decoded table without
  \<^verbatim>\<open>POINTS_LENGTH\<close>, without position data, or with quantized positions and no
  quantization scale.
\<close>

definition format_failure :: "env \<Rightarrow> array_buffer \<Rightarrow> nat option \<Rightarrow> bool" where
  "format_failure e arrayBuffer byteOffset =
     (let b = defaultValue byteOffset 0 in
      getMagic arrayBuffer b \<noteq> ''pnts'' \<or>
      (case getUint32 arrayBuffer (b + 4) of
         Inl err \<Rightarrow> False
       | Inr version \<Rightarrow>
           version \<noteq> 1 \<or>
           (case getUint32 arrayBuffer (b + 12) of
              Inl err \<Rightarrow> False
            | Inr jsonLength \<Rightarrow>
                jsonLength = 0 \<or>
                (case getUint32 arrayBuffer (b + 16) of
                   Inl err \<Rightarrow> False
                 | Inr binaryLength \<Rightarrow>
                     (case JSON_parse e (getStringFromTypedArray arrayBuffer (b + 20) (unat jsonLength)) of
                        None \<Rightarrow> False
                      | Some table \<Rightarrow>
                          b + 20 + unat jsonLength + unat binaryLength \<le> length arrayBuffer \<and>
                          (\<not> defined (property table ''POINTS_LENGTH'') \<or>
                           (\<not> defined (property table ''POSITION'') \<and>
                            (\<not> defined (property table ''POSITION_QUANTIZED'') \<or>
                             \<not> defined (property table ''QUANTIZED_VOLUME_SCALE'')))))))))"

text \<open>
  A buffer that holds the two tables its header announces. A header too short to hold
  the two lengths announces nothing.
\<close>

definition well_sized :: "array_buffer \<Rightarrow> nat option \<Rightarrow> bool" where
  "well_sized arrayBuffer byteOffset =
     (let b = defaultValue byteOffset 0 in
      (case getUint32 arrayBuffer (b + 12) of
         Inl err \<Rightarrow> True
       | Inr jsonLength \<Rightarrow>
           (case getUint32 arrayBuffer (b + 16) of
              Inl err \<Rightarrow> True
            | Inr binaryLength \<Rightarrow>
                b + 20 + unat jsonLength + unat binaryLength \<le> length arrayBuffer)))"

subsection \<open>Example tiles\<close>

text \<open>
  A well-formed container: the magic, the version, the total length, the lengths of the
  two tables (each an unsigned 32-bit little-endian number), the JSON text and the blob.
\<close>

definition uint32_bytes :: "nat \<Rightarrow> array_buffer" where
  "uint32_bytes n =
     [of_nat (n mod 256), of_nat (n div 256 mod 256), of_nat (n div 65536 mod 256),
      of_nat (n div 16777216 mod 256)]"

definition pnts_container :: "nat \<Rightarrow> string \<Rightarrow> array_buffer \<Rightarrow> array_buffer" where
  "pnts_container version txt bin =
     map of_char ''pnts'' @ uint32_bytes version @ uint32_bytes (20 + length txt + length bin)
       @ uint32_bytes (length txt) @ uint32_bytes (length bin) @ map of_char txt @ bin"

text \<open>
  What \<^verbatim>\<open>initialize\<close> has in hand after reading such a container of three
  points from offset 0.
\<close>

definition decoded :: "string \<Rightarrow> json \<Rightarrow> array_buffer \<Rightarrow> tile_tables" where
  "decoded txt table bin =
     \<lparr>jsonByteOffset = 20, binaryByteOffset = 20 + length txt,
      endByteOffset = 20 + length txt + length bin,
      tableString = txt, tableJSON = table, tableBinary = bin,
      tableResources = \<lparr>json = table, buffer = bin, featuresLength = Some (Json (JNumber 3))\<rparr>,
      pointCount = Some (Json (JNumber 3))\<rparr>"

text \<open>Three points with float positions and nothing else.\<close>

definition text1 :: string where
  "text1 = ''{\"POINTS_LENGTH\":3,\"POSITION\":{\"byteOffset\":0}}''"

definition table1 :: json where
  "table1 = JObject [(''POINTS_LENGTH'', JNumber 3),
                     (''POSITION'', JObject [(''byteOffset'', JNumber 0)])]"

definition tile1 :: array_buffer where
  "tile1 = pnts_container 1 text1 (replicate 36 0)"

text \<open>Three points with quantized positions, their scale, and per-point RGBA.\<close>

definition text2 :: string where
  "text2 = ''{\"POINTS_LENGTH\":3,\"POSITION_QUANTIZED\":{\"byteOffset\":0},\"QUANTIZED_VOLUME_SCALE\":[1,1,1],\"RGBA\":{\"byteOffset\":18}}''"

definition table2 :: json where
  "table2 = JObject [(''POINTS_LENGTH'', JNumber 3),
                     (''POSITION_QUANTIZED'', JObject [(''byteOffset'', JNumber 0)]),
                     (''QUANTIZED_VOLUME_SCALE'', JArray [1, 1, 1]),
                     (''RGBA'', JObject [(''byteOffset'', JNumber 18)])]"

definition tile2 :: array_buffer where
  "tile2 = pnts_container 1 text2 (replicate 30 255)"

text \<open>A point count and no position data.\<close>

definition text3 :: string where
  "text3 = ''{\"POINTS_LENGTH\":3}''"

definition table3 :: json where
  "table3 = JObject [(''POINTS_LENGTH'', JNumber 3)]"

definition tile3 :: array_buffer where
  "tile3 = pnts_container 1 text3 []"

text \<open>Float and quantized positions side by side, and no quantization scale.\<close>

definition text4 :: string where
  "text4 = ''{\"POINTS_LENGTH\":3,\"POSITION\":{\"byteOffset\":0},\"POSITION_QUANTIZED\":{\"byteOffset\":36}}''"

definition table4 :: json where
  "table4 = JObject [(''POINTS_LENGTH'', JNumber 3),
                     (''POSITION'', JObject [(''byteOffset'', JNumber 0)]),
                     (''POSITION_QUANTIZED'', JObject [(''byteOffset'', JNumber 36)])]"

definition tile4 :: array_buffer where
  "tile4 = pnts_container 1 text4 (replicate 54 0)"

text \<open>Float positions and per-point RGB.\<close>

definition text5 :: string where
  "text5 = ''{\"POINTS_LENGTH\":3,\"POSITION\":{\"byteOffset\":0},\"RGB\":{\"byteOffset\":36}}''"

definition table5 :: json where
  "table5 = JObject [(''POINTS_LENGTH'', JNumber 3),
                     (''POSITION'', JObject [(''byteOffset'', JNumber 0)]),
                     (''RGB'', JObject [(''byteOffset'', JNumber 36)])]"

definition tile5 :: array_buffer where
  "tile5 = pnts_container 1 text5 (replicate 45 0)"

text \<open>Quantized positions without their scale.\<close>

definition text6 :: string where
  "text6 = ''{\"POINTS_LENGTH\":3,\"POSITION_QUANTIZED\":{\"byteOffset\":0}}''"

definition table6 :: json where
  "table6 = JObject [(''POINTS_LENGTH'', JNumber 3),
                     (''POSITION_QUANTIZED'', JObject [(''byteOffset'', JNumber 0)])]"

definition tile6 :: array_buffer where
  "tile6 = pnts_container 1 text6 (replicate 18 0)"

text \<open>The first tile again, with version 2 in its header.\<close>

definition tile7 :: array_buffer where
  "tile7 = pnts_container 2 text1 (replicate 36 0)"

text \<open>
  An environment whose \<^verbatim>\<open>JSON.parse\<close> knows the texts above (and throws on every
  other text), with a rendering context in scope; and a content whose request is pending.
\<close>

definition env1 :: env where
  "env1 = \<lparr>JSON_parse = map_of [(text1, table1), (text2, table2), (text3, table3),
                                  (text4, table4), (text5, table5), (text6, table6)],
            global_context = Some (GLContext 0)\<rparr>"

definition sphere1 :: bounding_sphere where
  "sphere1 = \<lparr>center = (0, 0, 0), radius = 1\<rparr>"

definition content1 :: content where
  "content1 = request True (Points3DTileContent sphere1 ''points.pnts'')"

section \<open>Properties\<close>

subsection \<open>The shader sources determine the variant\<close>

lemma probe_simps:
  "probe (''attribute vec4 a_color; \<newline>'' @ r) = ''attribute vec4 a_c''"
  "probe (''attribute vec3 a_color; \<newline>'' @ r) = ''attribute vec3 a_c''"
  "probe (''attribute vec2 a_normal; \<newline>'' @ r) = ''attribute vec2 a_n''"
  "probe (''attribute vec3 a_normal; \<newline>'' @ r) = ''attribute vec3 a_n''"
  "probe (''uniform vec3 u_quantizedVolumeScale; \<newline>'' @ r) = ''uniform vec3 u_qua''"
  "probe (''void main() \<newline>'' @ r) = ''v''"
  by (simp_all add: probe_def)

lemma probe_colorDecl:
  "probe (vs_colorDecl f @ vs_normalDecl f @ vs_quantDecl f @ ''void main() \<newline>'' @ r) =
     (if hasColors f then (if isTranslucent f then ''attribute vec4 a_c'' else ''attribute vec3 a_c'')
      else if hasNormals f then (if isOctEncoded16P f then ''attribute vec2 a_n'' else ''attribute vec3 a_n'')
      else if isQuantized f then ''uniform vec3 u_qua'' else ''v'')"
  by (simp add: vs_colorDecl_def vs_normalDecl_def vs_quantDecl_def probe_simps del: append_Cons)

lemma probe_normalDecl:
  "probe (vs_normalDecl f @ vs_quantDecl f @ ''void main() \<newline>'' @ r) =
     (if hasNormals f then (if isOctEncoded16P f then ''attribute vec2 a_n'' else ''attribute vec3 a_n'')
      else if isQuantized f then ''uniform vec3 u_qua'' else ''v'')"
  by (simp add: vs_normalDecl_def vs_quantDecl_def probe_simps del: append_Cons)

lemma probe_quantDecl:
  "probe (vs_quantDecl f @ ''void main() \<newline>'' @ r) = (if isQuantized f then ''uniform vec3 u_qua'' else ''v'')"
  by (simp add: vs_quantDecl_def probe_simps del: append_Cons)

lemma build_vs_split:
  "build_vs f =
     ''attribute vec3 a_position; \<newline>'' @
     ''varying vec4 v_color; \<newline>'' @
     ''uniform float u_pointSize; \<newline>'' @
     ''uniform vec4 u_constantColor; \<newline>'' @
     vs_colorDecl f @ vs_normalDecl f @ vs_quantDecl f @ ''void main() \<newline>'' @ vs_body f"
  by (simp only: build_vs_def vs_colorDecl_def vs_normalDecl_def vs_quantDecl_def vs_body_def)

lemma build_vs_eqD:
  fixes f g :: flags
  assumes eq: "build_vs f = build_vs g"
  shows "isQuantized f = isQuantized g \<and> hasColors f = hasColors g \<and> hasNormals f = hasNormals g
     \<and> (hasColors f \<and> isTranslucent f) = (hasColors g \<and> isTranslucent g)
     \<and> (hasNormals f \<and> isOctEncoded16P f) = (hasNormals g \<and> isOctEncoded16P g)"
proof -
  from eq have s1:
    "vs_colorDecl f @ vs_normalDecl f @ vs_quantDecl f @ ''void main() \<newline>'' @ vs_body f =
     vs_colorDecl g @ vs_normalDecl g @ vs_quantDecl g @ ''void main() \<newline>'' @ vs_body g"
    by (simp only: build_vs_split same_append_eq)
  then have "probe (vs_colorDecl f @ vs_normalDecl f @ vs_quantDecl f @ ''void main() \<newline>'' @ vs_body f) =
     probe (vs_colorDecl g @ vs_normalDecl g @ vs_quantDecl g @ ''void main() \<newline>'' @ vs_body g)"
    by (rule arg_cong)
  then have c: "hasColors f = hasColors g
      \<and> (hasColors f \<and> isTranslucent f) = (hasColors g \<and> isTranslucent g)"
    unfolding probe_colorDecl by (simp split: if_splits)
  then have "vs_colorDecl f = vs_colorDecl g"
    by (auto simp: vs_colorDecl_def)
  with s1 have s2:
    "vs_normalDecl f @ vs_quantDecl f @ ''void main() \<newline>'' @ vs_body f =
     vs_normalDecl g @ vs_quantDecl g @ ''void main() \<newline>'' @ vs_body g"
    by (simp only: same_append_eq)
  then have "probe (vs_normalDecl f @ vs_quantDecl f @ ''void main() \<newline>'' @ vs_body f) =
     probe (vs_normalDecl g @ vs_quantDecl g @ ''void main() \<newline>'' @ vs_body g)"
    by (rule arg_cong)
  then have n: "hasNormals f = hasNormals g
      \<and> (hasNormals f \<and> isOctEncoded16P f) = (hasNormals g \<and> isOctEncoded16P g)"
    unfolding probe_normalDecl by (simp split: if_splits)
  then have "vs_normalDecl f = vs_normalDecl g"
    by (auto simp: vs_normalDecl_def)
  with s2 have s3: "vs_quantDecl f @ ''void main() \<newline>'' @ vs_body f = vs_quantDecl g @ ''void main() \<newline>'' @ vs_body g"
    by (simp only: same_append_eq)
  then have "probe (vs_quantDecl f @ ''void main() \<newline>'' @ vs_body f) = probe (vs_quantDecl g @ ''void main() \<newline>'' @ vs_body g)"
    by (rule arg_cong)
  then have q: "isQuantized f = isQuantized g"
    unfolding probe_quantDecl by (simp split: if_splits)
  from c n q show ?thesis by blast
qed

lemma build_vs_eqI:
  fixes f g :: flags
  assumes "isQuantized f = isQuantized g" "hasColors f = hasColors g" "hasNormals f = hasNormals g"
    "(hasColors f \<and> isTranslucent f) = (hasColors g \<and> isTranslucent g)"
    "(hasNormals f \<and> isOctEncoded16P f) = (hasNormals g \<and> isOctEncoded16P g)"
  shows "build_vs f = build_vs g"
proof -
  have c: "vs_colorDecl f = vs_colorDecl g" using assms by (auto simp: vs_colorDecl_def)
  have n: "vs_normalDecl f = vs_normalDecl g" using assms by (auto simp: vs_normalDecl_def)
  have q: "vs_quantDecl f = vs_quantDecl g" using assms by (auto simp: vs_quantDecl_def)
  have b: "vs_body f = vs_body g"
    using assms by (cases "hasColors g"; cases "hasNormals g"; simp add: vs_body_def del: append_Cons)
  show ?thesis by (simp only: build_vs_split c n q b)
qed

text \<open>
  C8, as amended. Shader synthesis is a function of the flag tuple, so equal tuples give
  equal sources; and two tuples give the same pair of sources exactly when they agree on
  \<open>isQuantized\<close>, \<open>hasColors\<close> and \<open>hasNormals\<close>, on \<open>isTranslucent\<close> where per-point
  colours exist, and on \<open>isOctEncoded16P\<close> where normals exist. The fragment source is
  the same for every tuple.
\<close>

theorem shader_sources_eq_iff:
  fixes f g :: flags
  shows "shader_sources f = shader_sources g \<longleftrightarrow>
     isQuantized f = isQuantized g \<and> hasColors f = hasColors g \<and> hasNormals f = hasNormals g
     \<and> (hasColors f \<and> isTranslucent f) = (hasColors g \<and> isTranslucent g)
     \<and> (hasNormals f \<and> isOctEncoded16P f) = (hasNormals g \<and> isOctEncoded16P g)"
proof
  assume "shader_sources f = shader_sources g"
  then have "build_vs f = build_vs g" by (simp add: shader_sources_def)
  then show "isQuantized f = isQuantized g \<and> hasColors f = hasColors g \<and> hasNormals f = hasNormals g
     \<and> (hasColors f \<and> isTranslucent f) = (hasColors g \<and> isTranslucent g)
     \<and> (hasNormals f \<and> isOctEncoded16P f) = (hasNormals g \<and> isOctEncoded16P g)"
    by (rule build_vs_eqD)
next
  assume "isQuantized f = isQuantized g \<and> hasColors f = hasColors g \<and> hasNormals f = hasNormals g
     \<and> (hasColors f \<and> isTranslucent f) = (hasColors g \<and> isTranslucent g)
     \<and> (hasNormals f \<and> isOctEncoded16P f) = (hasNormals g \<and> isOctEncoded16P g)"
  then have "build_vs f = build_vs g" by (intro build_vs_eqI) blast+
  then show "shader_sources f = shader_sources g" by (simp add: shader_sources_def)
qed

text \<open>
  C8 as stated fails: the tuple of a tile without per-point colours whose constant colour
  is translucent and the tuple of a tile without any colour differ in \<open>isTranslucent\<close>,
  and their sources are the same.
\<close>

theorem shader_sources_counterexample:
  "shader_sources \<lparr>isQuantized = False, hasColors = False, isTranslucent = True,
                    hasNormals = False, isOctEncoded16P = False\<rparr>
   = shader_sources \<lparr>isQuantized = False, hasColors = False, isTranslucent = False,
                      hasNormals = False, isOctEncoded16P = False\<rparr>
   \<and> isTranslucent \<lparr>isQuantized = False, hasColors = False, isTranslucent = True,
                     hasNormals = False, isOctEncoded16P = False\<rparr>
     \<noteq> isTranslucent \<lparr>isQuantized = False, hasColors = False, isTranslucent = False,
                        hasNormals = False, isOctEncoded16P = False\<rparr>"
  by (simp add: shader_sources_def build_vs_def del: append_Cons)

subsection \<open>The identifiers of the two shaders\<close>

lemmas info_defs = line_info_def words_of_def is_ident_char_def used_names_def base_name_def
  is_number_def is_builtin_def glsl_qualifiers_def glsl_types_def Let_def

lemma lines_simps:
  "lines_of (''attribute vec3 a_position; \<newline>'' @ r) = ''attribute vec3 a_position; '' # lines_of r"
  "lines_of (''varying vec4 v_color; \<newline>'' @ r) = ''varying vec4 v_color; '' # lines_of r"
  "lines_of (''uniform float u_pointSize; \<newline>'' @ r) = ''uniform float u_pointSize; '' # lines_of r"
  "lines_of (''uniform vec4 u_constantColor; \<newline>'' @ r) = ''uniform vec4 u_constantColor; '' # lines_of r"
  "lines_of (''attribute vec4 a_color; \<newline>'' @ r) = ''attribute vec4 a_color; '' # lines_of r"
  "lines_of (''attribute vec3 a_color; \<newline>'' @ r) = ''attribute vec3 a_color; '' # lines_of r"
  "lines_of (''attribute vec2 a_normal; \<newline>'' @ r) = ''attribute vec2 a_normal; '' # lines_of r"
  "lines_of (''attribute vec3 a_normal; \<newline>'' @ r) = ''attribute vec3 a_normal; '' # lines_of r"
  "lines_of (''uniform vec3 u_quantizedVolumeScale; \<newline>'' @ r) = ''uniform vec3 u_quantizedVolumeScale; '' # lines_of r"
  "lines_of (''void main() \<newline>'' @ r) = ''void main() '' # lines_of r"
  "lines_of (''{ \<newline>'' @ r) = ''{ '' # lines_of r"
  "lines_of (''    vec4 color = a_color * u_constantColor; \<newline>'' @ r) = ''    vec4 color = a_color * u_constantColor; '' # lines_of r"
  "lines_of (''    vec4 color =  vec4(a_color * u_constantColor.rgb, u_constantColor.a); \<newline>'' @ r) = ''    vec4 color =  vec4(a_color * u_constantColor.rgb, u_constantColor.a); '' # lines_of r"
  "lines_of (''    vec4 color = u_constantColor; \<newline>'' @ r) = ''    vec4 color = u_constantColor; '' # lines_of r"
  "lines_of (''    vec3 normal = czm_octDecode(a_normal); \<newline>'' @ r) = ''    vec3 normal = czm_octDecode(a_normal); '' # lines_of r"
  "lines_of (''    vec3 normal = a_normal; \<newline>'' @ r) = ''    vec3 normal = a_normal; '' # lines_of r"
  "lines_of (''    normal = czm_normal * normal; \<newline>'' @ r) = ''    normal = czm_normal * normal; '' # lines_of r"
  "lines_of (''    color *= max(dot(normal, czm_sunDirectionEC), 0.0); \<newline>'' @ r) = ''    color *= max(dot(normal, czm_sunDirectionEC), 0.0); '' # lines_of r"
  "lines_of (''    vec3 position = a_position * u_quantizedVolumeScale; \<newline>'' @ r) = ''    vec3 position = a_position * u_quantizedVolumeScale; '' # lines_of r"
  "lines_of (''    vec3 position = a_position; \<newline>'' @ r) = ''    vec3 position = a_position; '' # lines_of r"
  "lines_of (''    v_color = color; \<newline>'' @ r) = ''    v_color = color; '' # lines_of r"
  "lines_of (''    gl_Position = czm_modelViewProjection * vec4(position, 1.0); \<newline>'' @ r) = ''    gl_Position = czm_modelViewProjection * vec4(position, 1.0); '' # lines_of r"
  "lines_of (''    gl_PointSize = pointSize; \<newline>'' @ r) = ''    gl_PointSize = pointSize; '' # lines_of r"
  "lines_of (''} \<newline>'' @ r) = ''} '' # lines_of r"
  "lines_of (''    gl_FragColor = v_color; \<newline>'' @ r) = ''    gl_FragColor = v_color; '' # lines_of r"
  by simp_all

lemma info_simps:
  "line_info ''attribute vec3 a_position; '' = (Some ''a_position'', [])"
  "line_info ''varying vec4 v_color; '' = (Some ''v_color'', [])"
  "line_info ''uniform float u_pointSize; '' = (Some ''u_pointSize'', [])"
  "line_info ''uniform vec4 u_constantColor; '' = (Some ''u_constantColor'', [])"
  "line_info ''attribute vec4 a_color; '' = (Some ''a_color'', [])"
  "line_info ''attribute vec3 a_color; '' = (Some ''a_color'', [])"
  "line_info ''attribute vec2 a_normal; '' = (Some ''a_normal'', [])"
  "line_info ''attribute vec3 a_normal; '' = (Some ''a_normal'', [])"
  "line_info ''uniform vec3 u_quantizedVolumeScale; '' = (Some ''u_quantizedVolumeScale'', [])"
  "line_info ''void main() '' = (None, [])"
  "line_info ''{ '' = (None, [])"
  "line_info ''    vec4 color = a_color * u_constantColor; '' = (Some ''color'', [''a_color'', ''u_constantColor''])"
  "line_info ''    vec4 color =  vec4(a_color * u_constantColor.rgb, u_constantColor.a); '' = (Some ''color'', [''a_color'', ''u_constantColor'', ''u_constantColor''])"
  "line_info ''    vec4 color = u_constantColor; '' = (Some ''color'', [''u_constantColor''])"
  "line_info ''    vec3 normal = czm_octDecode(a_normal); '' = (Some ''normal'', [''a_normal''])"
  "line_info ''    vec3 normal = a_normal; '' = (Some ''normal'', [''a_normal''])"
  "line_info ''    normal = czm_normal * normal; '' = (None, [''normal'', ''normal''])"
  "line_info ''    color *= max(dot(normal, czm_sunDirectionEC), 0.0); '' = (None, [''color'', ''normal''])"
  "line_info ''    vec3 position = a_position * u_quantizedVolumeScale; '' = (Some ''position'', [''a_position'', ''u_quantizedVolumeScale''])"
  "line_info ''    vec3 position = a_position; '' = (Some ''position'', [''a_position''])"
  "line_info ''    v_color = color; '' = (None, [''v_color'', ''color''])"
  "line_info ''    gl_Position = czm_modelViewProjection * vec4(position, 1.0); '' = (None, [''position''])"
  "line_info ''    gl_PointSize = pointSize; '' = (None, [''pointSize''])"
  "line_info ''} '' = (None, [])"
  "line_info ''    gl_FragColor = v_color; '' = (None, [''v_color''])"
  by (simp_all add: info_defs)


lemma vs_infos:
  fixes f :: flags
  shows "map line_info (lines_of (build_vs f)) =
     [(Some ''a_position'', []), (Some ''v_color'', []), (Some ''u_pointSize'', []),
      (Some ''u_constantColor'', [])]
     @ (if hasColors f then [(Some ''a_color'', [])] else [])
     @ (if hasNormals f then [(Some ''a_normal'', [])] else [])
     @ (if isQuantized f then [(Some ''u_quantizedVolumeScale'', [])] else [])
     @ [(None, []), (None, [])]
     @ (if hasColors f
        then (if isTranslucent f
              then [(Some ''color'', [''a_color'', ''u_constantColor''])]
              else [(Some ''color'', [''a_color'', ''u_constantColor'', ''u_constantColor''])])
        else [(Some ''color'', [''u_constantColor''])])
     @ (if hasNormals f
        then [(Some ''normal'', [''a_normal'']), (None, [''normal'', ''normal'']),
              (None, [''color'', ''normal''])]
        else [])
     @ (if isQuantized f
        then [(Some ''position'', [''a_position'', ''u_quantizedVolumeScale''])]
        else [(Some ''position'', [''a_position''])])
     @ [(None, [''v_color'', ''color'']), (None, [''position'']), (None, [''pointSize'']), (None, [])]"
  by (simp add: build_vs_def lines_simps info_simps del: append_Cons)

lemma fs_infos:
  "map line_info (lines_of build_fs) =
     [(Some ''v_color'', []), (None, []), (None, []), (None, [''v_color'']), (None, [])]"
  by (simp add: build_fs_def lines_simps info_simps del: append_Cons)

text \<open>
  C7, evaluated on the code. For every flag tuple the vertex shader uses exactly one name
  that it does not declare, \<^verbatim>\<open>pointSize\<close>, in the statement that writes
  \<^verbatim>\<open>gl_PointSize\<close>; the uniform \<^verbatim>\<open>u_pointSize\<close> is declared and never used. Every
  other name used in the vertex shader, and every name used in the fragment shader, is
  declared before its use.
\<close>

theorem vs_undeclared:
  fixes f :: flags
  shows "undeclared_identifiers (build_vs f) = [''pointSize'']
     \<and> ''u_pointSize'' \<in> set (declared_identifiers (build_vs f))
     \<and> ''u_pointSize'' \<notin> set (used_identifiers (build_vs f))
     \<and> undeclared_identifiers build_fs = []"
  by (auto simp: undeclared_identifiers_def declared_identifiers_def used_identifiers_def vs_infos
        fs_infos)

subsection \<open>The vertex attribute list\<close>

text \<open>
  C5, as amended. For every flag tuple and every three buffers the attribute list holds
  the position at slot 0, then the colour at slot 1 exactly when per-point colours exist,
  then the normal at slot 2 exactly when normals exist; every entry has offset 0 and
  stride 0; the normalize flag is true for quantized positions and for colours, and false
  for float positions and for normals of either encoding.
\<close>

theorem attributes_layout:
  fixes f :: flags
  shows
   "map index (build_attributes f positions colors normals) =
      [0] @ (if hasColors f then [1] else []) @ (if hasNormals f then [2] else [])
    \<and> map vertexBuffer (build_attributes f positions colors normals) =
      [positions] @ (if hasColors f then [colors] else []) @ (if hasNormals f then [normals] else [])
    \<and> map normalize_flag (build_attributes f positions colors normals) =
      [isQuantized f] @ (if hasColors f then [True] else []) @ (if hasNormals f then [False] else [])
    \<and> map componentDatatype (build_attributes f positions colors normals) =
      [if isQuantized f then Some UNSIGNED_SHORT else Some FLOAT]
      @ (if hasColors f then [Some UNSIGNED_BYTE] else [])
      @ (if hasNormals f then [if isOctEncoded16P f then Some UNSIGNED_BYTE else Some FLOAT] else [])
    \<and> map componentsPerAttribute (build_attributes f positions colors normals) =
      [3] @ (if hasColors f then [if isTranslucent f then 4 else 3] else [])
      @ (if hasNormals f then [if isOctEncoded16P f then 2 else 3] else [])
    \<and> map offsetInBytes (build_attributes f positions colors normals) =
      map (\<lambda>a. 0) (build_attributes f positions colors normals)
    \<and> map strideInBytes (build_attributes f positions colors normals) =
      map (\<lambda>a. 0) (build_attributes f positions colors normals)"
  by (simp add: build_attributes_def positionAttributeLocation_def colorAttributeLocation_def
        normalAttributeLocation_def ComponentDatatype_def)

text \<open>
  C5 as stated fails: the oct-encoded normal (two unsigned bytes) is passed to the
  renderer with the normalize flag off.
\<close>

theorem attributes_normalize_counterexample:
  "map normalize_flag
     (build_attributes \<lparr>isQuantized = False, hasColors = False, isTranslucent = False,
                         hasNormals = True, isOctEncoded16P = True\<rparr> None None None)
     = [False, False]
   \<and> map componentsPerAttribute
     (build_attributes \<lparr>isQuantized = False, hasColors = False, isTranslucent = False,
                         hasNormals = True, isOctEncoded16P = True\<rparr> None None None)
     = [3, 2]
   \<and> map index
     (build_attributes \<lparr>isQuantized = False, hasColors = False, isTranslucent = False,
                         hasNormals = True, isOctEncoded16P = True\<rparr> None None None)
     = [0, 2]"
  by (simp add: build_attributes_def positionAttributeLocation_def colorAttributeLocation_def
        normalAttributeLocation_def ComponentDatatype_def)

subsection \<open>Render state and pass\<close>

text \<open>
  C6, evaluated on the code. For every flag tuple with the translucent flag set the
  render state has the depth test on, depth writes off and alpha blending on, and the
  pass of the draw command is the member \<^verbatim>\<open>isTranslucent\<close> of the pass enumeration,
  which it does not have: the command gets no pass, not the translucent one. With the
  flag off the pass is the opaque one.
\<close>

theorem translucent_pass_undefined:
  fixes f :: flags
  shows "pass (fst (build_drawCommand ctx this (f\<lparr>isTranslucent := True\<rparr>) n p c nn)) = None
    \<and> Pass ''TRANSLUCENT'' = Some TRANSLUCENT
    \<and> renderState (fst (build_drawCommand ctx this (f\<lparr>isTranslucent := True\<rparr>) n p c nn))
        = \<lparr>depthTest_enabled = True, depthMask = Some False, blending = Some ALPHA_BLEND\<rparr>
    \<and> pass (fst (build_drawCommand ctx this (f\<lparr>isTranslucent := False\<rparr>) n p c nn)) = Some OPAQUE
    \<and> renderState (fst (build_drawCommand ctx this (f\<lparr>isTranslucent := False\<rparr>) n p c nn))
        = \<lparr>depthTest_enabled = True, depthMask = None, blending = None\<rparr>"
  by (simp add: build_drawCommand_def build_pass_def build_rs_def Pass_def Let_def)

subsection \<open>Reading the container and resolving the variant\<close>

lemma defined_getGlobalProperty:
  "defined (getGlobalProperty res k ct n) = defined (property (json res) k)"
proof (cases "member (json res) k")
  case None
  then show ?thesis by (simp add: getGlobalProperty_def property_def)
next
  case (Some jsonValue)
  show ?thesis
  proof (cases "member jsonValue ''byteOffset''")
    case None
    with Some show ?thesis by (simp add: getGlobalProperty_def property_def)
  next
    case (Some byteOffset)
    then have "jsonValue \<noteq> JNull" by (cases jsonValue) auto
    with Some \<open>member (json res) k = Some jsonValue\<close> show ?thesis
      by (cases jsonValue) (auto simp: getGlobalProperty_def property_def)
  qed
qed

lemma read_tables_unfold:
  "read_tables e arrayBuffer byteOffset =
     (let b = defaultValue byteOffset 0 in
      if getMagic arrayBuffer b \<noteq> ''pnts''
      then Inl (DeveloperError (''Invalid Points tile.  Expected magic=pnts.  Read magic=''
                  @ getMagic arrayBuffer b))
      else
        (case getUint32 arrayBuffer (b + 4) of
           Inl err \<Rightarrow> Inl err
         | Inr version \<Rightarrow>
             if version \<noteq> 1
             then Inl (DeveloperError (''Only Points tile version 1 is supported.  Version ''
                        @ toString version @ '' is not.''))
             else
               (case getUint32 arrayBuffer (b + 12) of
                  Inl err \<Rightarrow> Inl err
                | Inr n \<Rightarrow>
                    if n = 0
                    then Inl (DeveloperError
                                ''Feature table must have a byte length greater than zero'')
                    else
                      (case getUint32 arrayBuffer (b + 16) of
                         Inl err \<Rightarrow> Inl err
                       | Inr m \<Rightarrow>
                           (case JSON_parse e
                                   (getStringFromTypedArray arrayBuffer (b + 20) (unat n)) of
                              None \<Rightarrow> Inl SyntaxError
                            | Some j \<Rightarrow>
                                if \<not> b + 20 + unat n + unat m \<le> length arrayBuffer
                                then Inl RangeError
                                else if \<not> defined (property j ''POINTS_LENGTH'')
                                then Inl (DeveloperError
                                  ''Feature table global property: POINTS_LENGTH must be defined'')
                                else Inr
                                  \<lparr>jsonByteOffset = b + 20, binaryByteOffset = b + 20 + unat n,
                                   endByteOffset = b + 20 + unat n + unat m,
                                   tableString =
                                     getStringFromTypedArray arrayBuffer (b + 20) (unat n),
                                   tableJSON = j,
                                   tableBinary = take (unat m) (drop (b + 20 + unat n) arrayBuffer),
                                   tableResources =
                                     \<lparr>json = j,
                                      buffer = take (unat m) (drop (b + 20 + unat n) arrayBuffer),
                                      featuresLength =
                                        getGlobalProperty
                                          (Cesium3DTileFeatureTableResources j
                                             (take (unat m) (drop (b + 20 + unat n) arrayBuffer)))
                                          ''POINTS_LENGTH'' None None\<rparr>,
                                   pointCount =
                                     getGlobalProperty
                                       (Cesium3DTileFeatureTableResources j
                                          (take (unat m) (drop (b + 20 + unat n) arrayBuffer)))
                                       ''POINTS_LENGTH'' None None\<rparr>)))))"
  by (simp add: read_tables_def Let_def sizeOfUint32_def bind_err_def parse_json_def Uint8Array_def
        defined_getGlobalProperty Cesium3DTileFeatureTableResources_def add.assoc
      split: sum.splits option.splits)

lemma get_positions_unfold:
  assumes "json (tableResources t) = tableJSON t"
  shows "get_positions t this =
     (if defined (property (tableJSON t) ''POSITION'')
      then (Inr (getGlobalProperty (tableResources t) ''POSITION'' (Some FLOAT)
                   (Some (PerPoint (pointCount t) 3)), False), this)
      else if defined (property (tableJSON t) ''POSITION_QUANTIZED'')
      then (if defined (property (tableJSON t) ''QUANTIZED_VOLUME_SCALE'')
            then (Inr (getGlobalProperty (tableResources t) ''POSITION_QUANTIZED'' (Some UNSIGNED_SHORT)
                         (Some (PerPoint (pointCount t) 3)), True),
                  this\<lparr>quantizedVolumeScale :=
                         getGlobalProperty (tableResources t) ''QUANTIZED_VOLUME_SCALE'' (Some FLOAT)
                           (Some (Count 3))\<rparr>)
            else (Inl (DeveloperError
                    ''Global property: QUANTIZED_VOLUME_SCALE must be defined for quantized positions.''),
                  this\<lparr>quantizedVolumeScale :=
                         getGlobalProperty (tableResources t) ''QUANTIZED_VOLUME_SCALE'' (Some FLOAT)
                           (Some (Count 3))\<rparr>))
      else (Inl (DeveloperError ''Either POSITION or POSITION_QUANTIZED must be defined.''), this))"
  by (simp add: get_positions_def Let_def defined_getGlobalProperty assms ComponentDatatype_def)

lemma get_colors_no_error:
  assumes "json (tableResources t) = tableJSON t"
  shows "\<exists>r that. get_colors t this = (Inr r, that) \<and> drawCommand that = drawCommand this
           \<and> state that = state this \<and> quantizedVolumeScale that = quantizedVolumeScale this"
proof (cases "getGlobalProperty (tableResources t) ''CONSTANT_COLOR'' (Some UNSIGNED_BYTE) (Some (Count 4))")
  case None
  then have "\<not> defined (property (tableJSON t) ''CONSTANT_COLOR'')"
    using defined_getGlobalProperty [of "tableResources t" "''CONSTANT_COLOR''" "Some UNSIGNED_BYTE" "Some (Count 4)"]
    by (simp add: assms)
  then show ?thesis by (auto simp: get_colors_def Let_def)
next
  case (Some c)
  then show ?thesis by (auto simp: get_colors_def Let_def ComponentDatatype_def)
qed

lemma resolve_DeveloperError:
  assumes "json (tableResources t) = tableJSON t"
  shows "(\<exists>msg. fst (resolve t this) = Inl (DeveloperError msg)) =
         (\<not> defined (property (tableJSON t) ''POSITION'') \<and>
            (\<not> defined (property (tableJSON t) ''POSITION_QUANTIZED'') \<or>
             \<not> defined (property (tableJSON t) ''QUANTIZED_VOLUME_SCALE'')))"
    and "\<exists>msg. fst (resolve t this) = Inl (DeveloperError msg) \<or> (\<exists>r. fst (resolve t this) = Inr r)"
    and "drawCommand (snd (resolve t this)) = drawCommand this"
    and "state (snd (resolve t this)) = state this"
proof -
  have c: "\<And>this1. \<exists>r that. get_colors t this1 = (Inr r, that) \<and> drawCommand that = drawCommand this1 \<and> state that = state this1 \<and> quantizedVolumeScale that = quantizedVolumeScale this1"
    using get_colors_no_error [OF assms] by blast
  show "(\<exists>msg. fst (resolve t this) = Inl (DeveloperError msg)) =
         (\<not> defined (property (tableJSON t) ''POSITION'') \<and>
            (\<not> defined (property (tableJSON t) ''POSITION_QUANTIZED'') \<or>
             \<not> defined (property (tableJSON t) ''QUANTIZED_VOLUME_SCALE'')))"
    using c [of this] c [of "this\<lparr>quantizedVolumeScale :=
                         getGlobalProperty (tableResources t) ''QUANTIZED_VOLUME_SCALE'' (Some FLOAT)
                           (Some (Count 3))\<rparr>"]
    by (auto simp: resolve_def get_positions_unfold [OF assms] Let_def split: prod.splits)
  show "\<exists>msg. fst (resolve t this) = Inl (DeveloperError msg) \<or> (\<exists>r. fst (resolve t this) = Inr r)"
    using c [of this] c [of "this\<lparr>quantizedVolumeScale :=
                         getGlobalProperty (tableResources t) ''QUANTIZED_VOLUME_SCALE'' (Some FLOAT)
                           (Some (Count 3))\<rparr>"]
    by (auto simp: resolve_def get_positions_unfold [OF assms] Let_def split: prod.splits)
  show "drawCommand (snd (resolve t this)) = drawCommand this"
    using c [of this] c [of "this\<lparr>quantizedVolumeScale :=
                         getGlobalProperty (tableResources t) ''QUANTIZED_VOLUME_SCALE'' (Some FLOAT)
                           (Some (Count 3))\<rparr>"]
    by (auto simp: resolve_def get_positions_unfold [OF assms] Let_def split: prod.splits)
  show "state (snd (resolve t this)) = state this"
    using c [of this] c [of "this\<lparr>quantizedVolumeScale :=
                         getGlobalProperty (tableResources t) ''QUANTIZED_VOLUME_SCALE'' (Some FLOAT)
                           (Some (Count 3))\<rparr>"]
    by (auto simp: resolve_def get_positions_unfold [OF assms] Let_def split: prod.splits)
qed


lemma getUint32_Inl:
  "getUint32 view byteOffset = Inl err \<Longrightarrow> err = RangeError"
  by (simp add: getUint32_def split: if_splits)

lemma format_failure_Inl:
  assumes "read_tables e arrayBuffer byteOffset = Inl err"
  shows "format_failure e arrayBuffer byteOffset = (\<exists>msg. err = DeveloperError msg)"
  using assms unfolding read_tables_unfold format_failure_def Let_def
  by (auto split: sum.splits option.splits if_splits dest: getUint32_Inl)

lemma format_failure_Inr:
  assumes "read_tables e arrayBuffer byteOffset = Inr t"
  shows "format_failure e arrayBuffer byteOffset =
           (\<not> defined (property (tableJSON t) ''POSITION'') \<and>
            (\<not> defined (property (tableJSON t) ''POSITION_QUANTIZED'') \<or>
             \<not> defined (property (tableJSON t) ''QUANTIZED_VOLUME_SCALE'')))"
    and "json (tableResources t) = tableJSON t"
  using assms unfolding read_tables_unfold format_failure_def Let_def
  by (auto split: sum.splits option.splits if_splits)

lemma initialize_DeveloperError_iff:
  "(\<exists>msg. fst (initialize e this arrayBuffer byteOffset) = Some (DeveloperError msg))
      = format_failure e arrayBuffer byteOffset
   \<and> (fst (initialize e this arrayBuffer byteOffset) \<noteq> None \<longrightarrow>
        snd (snd (initialize e this arrayBuffer byteOffset)) = []
        \<and> drawCommand (fst (snd (initialize e this arrayBuffer byteOffset))) = drawCommand this
        \<and> state (fst (snd (initialize e this arrayBuffer byteOffset))) = state this)"
proof (cases "read_tables e arrayBuffer byteOffset")
  case (Inl err)
  then show ?thesis
    by (auto simp: initialize_def format_failure_Inl)
next
  case (Inr t)
  note wf = format_failure_Inr(2) [OF Inr]
  obtain r that where res: "resolve t this = (r, that)" by (cases "resolve t this")
  have dc: "drawCommand that = drawCommand this" "state that = state this"
    using resolve_DeveloperError(3,4) [OF wf, of this] res by simp_all
  have dev: "(\<exists>msg. r = Inl (DeveloperError msg)) = format_failure e arrayBuffer byteOffset"
    using resolve_DeveloperError(1) [OF wf, of this] res format_failure_Inr(1) [OF Inr] by simp
  have alt: "(\<exists>msg. r = Inl (DeveloperError msg)) \<or> (\<exists>x. r = Inr x)"
    using resolve_DeveloperError(2) [OF wf, of this] res by auto
  show ?thesis
  proof (cases r)
    case (Inl err)
    with Inr res dc dev show ?thesis by (auto simp: initialize_def)
  next
    case r: (Inr x)
    with dev have nf: "\<not> format_failure e arrayBuffer byteOffset" by auto
    show ?thesis
    proof (cases "global_context e")
      case None
      with Inr res r dc nf show ?thesis by (simp add: initialize_def)
    next
      case (Some ctx)
      with Inr res r nf show ?thesis
        by (simp add: initialize_def Let_def split: prod.splits)
    qed
  qed
qed

text \<open>
  C1, as amended. \<^verbatim>\<open>initialize\<close> throws a \<^verbatim>\<open>DeveloperError\<close> (the spec's
  \<^verbatim>\<open>FormatError\<close>) on every format failure of the spec: the four of the container
  and the two of the position data; on a buffer that holds the tables its header
  announces it throws that error on no other input. Whenever it throws, whatever the
  exception, no renderer object has been created, and the draw command and the state of
  the content are as they were.
\<close>

theorem initialize_format_failure:
  "(format_failure e arrayBuffer byteOffset \<longrightarrow>
      (\<exists>msg. fst (initialize e this arrayBuffer byteOffset) = Some (DeveloperError msg)))
   \<and> (well_sized arrayBuffer byteOffset \<longrightarrow>
        (\<exists>msg. fst (initialize e this arrayBuffer byteOffset) = Some (DeveloperError msg)) \<longrightarrow>
        format_failure e arrayBuffer byteOffset)
   \<and> (fst (initialize e this arrayBuffer byteOffset) \<noteq> None \<longrightarrow>
        snd (snd (initialize e this arrayBuffer byteOffset)) = []
        \<and> drawCommand (fst (snd (initialize e this arrayBuffer byteOffset))) = drawCommand this
        \<and> state (fst (snd (initialize e this arrayBuffer byteOffset))) = state this)"
  using initialize_DeveloperError_iff [of e this arrayBuffer byteOffset] by blast


lemma read_tables_InrD:
  assumes "read_tables e arrayBuffer byteOffset = Inr t"
  shows "\<exists>n m. getMagic arrayBuffer (defaultValue byteOffset 0) = ''pnts''
      \<and> getUint32 arrayBuffer (defaultValue byteOffset 0 + 4) = Inr 1
      \<and> getUint32 arrayBuffer (defaultValue byteOffset 0 + 12) = Inr n \<and> n \<noteq> 0
      \<and> getUint32 arrayBuffer (defaultValue byteOffset 0 + 16) = Inr m
      \<and> defaultValue byteOffset 0 + 20 + unat n + unat m \<le> length arrayBuffer
      \<and> JSON_parse e (getStringFromTypedArray arrayBuffer (defaultValue byteOffset 0 + 20) (unat n))
            = Some (tableJSON t)
      \<and> jsonByteOffset t = defaultValue byteOffset 0 + 20
      \<and> tableString t = getStringFromTypedArray arrayBuffer (defaultValue byteOffset 0 + 20) (unat n)
      \<and> binaryByteOffset t = defaultValue byteOffset 0 + 20 + unat n
      \<and> tableBinary t = take (unat m) (drop (defaultValue byteOffset 0 + 20 + unat n) arrayBuffer)
      \<and> endByteOffset t = defaultValue byteOffset 0 + 20 + unat n + unat m
      \<and> json (tableResources t) = tableJSON t
      \<and> buffer (tableResources t) = tableBinary t
      \<and> pointCount t = getGlobalProperty (Cesium3DTileFeatureTableResources (tableJSON t) (tableBinary t))
                          ''POINTS_LENGTH'' None None
      \<and> defined (pointCount t)"
  using assms unfolding read_tables_unfold Let_def
  by (auto split: sum.splits option.splits if_splits
           simp: defined_getGlobalProperty Cesium3DTileFeatureTableResources_def)

text \<open>
  C10, as amended. The header prefix is 20 bytes long (five fields of four bytes): for
  every buffer read at offset \<open>b\<close>, the feature table JSON is the bytes from \<open>b + 20\<close> on,
  as many as the fourth field says, and the binary blob follows them immediately.
\<close>

theorem feature_table_offsets:
  assumes "read_tables e arrayBuffer (Some b) = Inr t"
  shows "\<exists>n m. getUint32 arrayBuffer (b + 12) = Inr n
      \<and> getUint32 arrayBuffer (b + 16) = Inr m
      \<and> jsonByteOffset t = b + 20
      \<and> tableString t = map fromCharCode (take (unat n) (drop (b + 20) arrayBuffer))
      \<and> binaryByteOffset t = b + 20 + unat n
      \<and> tableBinary t = take (unat m) (drop (b + 20 + unat n) arrayBuffer)
      \<and> endByteOffset t = b + 20 + unat n + unat m"
  using read_tables_InrD [OF assms]
  by (auto simp: defaultValue_def getStringFromTypedArray_def)

text \<open>
  C4. Whenever \<^verbatim>\<open>initialize\<close> returns normally, the draw command it stored has
  the value of \<^verbatim>\<open>POINTS_LENGTH\<close>, as the feature table gave it, for its vertex count
  and points for its primitive type; the command is the last renderer object created.
\<close>

theorem vertex_count_is_pointsLength:
  assumes "fst (initialize e this arrayBuffer byteOffset) = None"
  shows "\<exists>t command. read_tables e arrayBuffer byteOffset = Inr t
      \<and> drawCommand (fst (snd (initialize e this arrayBuffer byteOffset))) = Some command
      \<and> count command = getGlobalProperty
            (Cesium3DTileFeatureTableResources (tableJSON t) (tableBinary t)) ''POINTS_LENGTH'' None None
      \<and> defined (count command)
      \<and> primitiveType command = POINTS
      \<and> snd (snd (initialize e this arrayBuffer byteOffset)) \<noteq> []
      \<and> last (snd (snd (initialize e this arrayBuffer byteOffset))) = CreatedDrawCommand command"
proof (cases "read_tables e arrayBuffer byteOffset")
  case (Inl err)
  with assms show ?thesis by (simp add: initialize_def)
next
  case (Inr t)
  note d = read_tables_InrD [OF Inr]
  obtain r that where res: "resolve t this = (r, that)" by (cases "resolve t this")
  show ?thesis
  proof (cases r)
    case (Inl err)
    with assms Inr res show ?thesis by (simp add: initialize_def)
  next
    case r: (Inr x)
    show ?thesis
    proof (cases "global_context e")
      case None
      with assms Inr res r show ?thesis by (simp add: initialize_def)
    next
      case (Some ctx)
      with Inr res r d show ?thesis
        by (auto simp: initialize_def Let_def build_drawCommand_def split: prod.splits)
    qed
  qed
qed

lemma get_colors_frame:
  "quantizedVolumeScale (snd (get_colors t this)) = quantizedVolumeScale this"
  by (simp add: get_colors_def Let_def split: option.splits)

text \<open>
  C2, as amended. For every decoded feature table: without \<^verbatim>\<open>POSITION\<close> and
  without \<^verbatim>\<open>POSITION_QUANTIZED\<close>, \<^verbatim>\<open>initialize\<close> throws; without
  \<^verbatim>\<open>POSITION\<close>, with \<^verbatim>\<open>POSITION_QUANTIZED\<close> and without
  \<^verbatim>\<open>QUANTIZED_VOLUME_SCALE\<close>, it throws; positions are quantized exactly when
  \<^verbatim>\<open>POSITION\<close> is absent and \<^verbatim>\<open>POSITION_QUANTIZED\<close> present; and on a content
  whose scale is unset, as the constructor leaves it, the scale is set exactly when
  positions are quantized, which is how a normal return of \<^verbatim>\<open>initialize\<close> leaves it.
\<close>

theorem position_resolution:
  assumes "read_tables e arrayBuffer byteOffset = Inr t"
  shows "(\<not> defined (property (tableJSON t) ''POSITION'')
            \<and> \<not> defined (property (tableJSON t) ''POSITION_QUANTIZED'')
          \<longrightarrow> fst (initialize e this arrayBuffer byteOffset)
                = Some (DeveloperError ''Either POSITION or POSITION_QUANTIZED must be defined.''))
     \<and> (\<not> defined (property (tableJSON t) ''POSITION'')
            \<and> defined (property (tableJSON t) ''POSITION_QUANTIZED'')
            \<and> \<not> defined (property (tableJSON t) ''QUANTIZED_VOLUME_SCALE'')
          \<longrightarrow> fst (initialize e this arrayBuffer byteOffset)
                = Some (DeveloperError
                    ''Global property: QUANTIZED_VOLUME_SCALE must be defined for quantized positions.''))
     \<and> (\<forall>r that. resolve t this = (Inr r, that) \<longrightarrow>
            isQuantized (variant r)
              = (\<not> defined (property (tableJSON t) ''POSITION'')
                 \<and> defined (property (tableJSON t) ''POSITION_QUANTIZED''))
            \<and> (quantizedVolumeScale this = None \<longrightarrow>
                 defined (quantizedVolumeScale that) = isQuantized (variant r)))
     \<and> (fst (initialize e this arrayBuffer byteOffset) = None \<longrightarrow>
           (\<exists>r that. resolve t this = (Inr r, that)
              \<and> quantizedVolumeScale (fst (snd (initialize e this arrayBuffer byteOffset)))
                  = quantizedVolumeScale that))"
proof -
  from read_tables_InrD [OF assms] have wf: "json (tableResources t) = tableJSON t" by blast
  note gp = get_positions_unfold [OF wf]
  have a: "\<not> defined (property (tableJSON t) ''POSITION'')
            \<and> \<not> defined (property (tableJSON t) ''POSITION_QUANTIZED'')
          \<longrightarrow> fst (initialize e this arrayBuffer byteOffset)
                = Some (DeveloperError ''Either POSITION or POSITION_QUANTIZED must be defined.'')"
    by (simp add: initialize_def assms resolve_def gp)
  have b: "\<not> defined (property (tableJSON t) ''POSITION'')
            \<and> defined (property (tableJSON t) ''POSITION_QUANTIZED'')
            \<and> \<not> defined (property (tableJSON t) ''QUANTIZED_VOLUME_SCALE'')
          \<longrightarrow> fst (initialize e this arrayBuffer byteOffset)
                = Some (DeveloperError
                    ''Global property: QUANTIZED_VOLUME_SCALE must be defined for quantized positions.'')"
    by (simp add: initialize_def assms resolve_def gp)
  have c: "\<forall>r that. resolve t this = (Inr r, that) \<longrightarrow>
            isQuantized (variant r)
              = (\<not> defined (property (tableJSON t) ''POSITION'')
                 \<and> defined (property (tableJSON t) ''POSITION_QUANTIZED''))
            \<and> (quantizedVolumeScale this = None \<longrightarrow>
                 defined (quantizedVolumeScale that) = isQuantized (variant r))"
  proof (intro allI impI)
    fix r that
    assume res: "resolve t this = (Inr r, that)"
    obtain p this1 where g: "get_positions t this = (p, this1)" by (cases "get_positions t this")
    obtain c this2 where gc: "get_colors t this1 = (c, this2)" by (cases "get_colors t this1")
    have q2: "quantizedVolumeScale this2 = quantizedVolumeScale this1"
      using get_colors_frame [of t this1] gc by simp
    from res g gc q2 show "isQuantized (variant r)
              = (\<not> defined (property (tableJSON t) ''POSITION'')
                 \<and> defined (property (tableJSON t) ''POSITION_QUANTIZED''))
            \<and> (quantizedVolumeScale this = None \<longrightarrow>
                 defined (quantizedVolumeScale that) = isQuantized (variant r))"
      unfolding resolve_def gp
      by (auto simp: Let_def defined_getGlobalProperty wf split: if_splits sum.splits prod.splits)
  qed
  have d: "fst (initialize e this arrayBuffer byteOffset) = None \<longrightarrow>
           (\<exists>r that. resolve t this = (Inr r, that)
              \<and> quantizedVolumeScale (fst (snd (initialize e this arrayBuffer byteOffset)))
                  = quantizedVolumeScale that)"
    by (cases "resolve t this")
       (auto simp: initialize_def assms Let_def split: sum.splits option.splits prod.splits)
  from a b c d show ?thesis by blast
qed

subsection \<open>The example tiles, read\<close>

lemmas read_defs = read_tables_unfold getMagic_def getStringFromTypedArray_def getUint32_def
  Cesium3DTileFeatureTableResources_def getGlobalProperty_def property_def
  defaultValue_def fromCharCode_def Let_def
lemmas tile_defs = pnts_container_def uint32_bytes_def env1_def
lemmas text_defs = text1_def text2_def text3_def text4_def text5_def text6_def

lemma read_tile1: "read_tables env1 tile1 None = Inr (decoded text1 table1 (replicate 36 0))"
  by (simp add: read_defs tile_defs decoded_def tile1_def text_defs table1_def)

lemma read_tile2: "read_tables env1 tile2 None = Inr (decoded text2 table2 (replicate 30 255))"
  by (simp add: read_defs tile_defs decoded_def tile2_def text_defs table2_def)

lemma read_tile3: "read_tables env1 tile3 None = Inr (decoded text3 table3 ([]))"
  by (simp add: read_defs tile_defs decoded_def tile3_def text_defs table3_def)

lemma read_tile4: "read_tables env1 tile4 None = Inr (decoded text4 table4 (replicate 54 0))"
  by (simp add: read_defs tile_defs decoded_def tile4_def text_defs table4_def)

lemma read_tile5: "read_tables env1 tile5 None = Inr (decoded text5 table5 (replicate 45 0))"
  by (simp add: read_defs tile_defs decoded_def tile5_def text_defs table5_def)

lemma read_tile6: "read_tables env1 tile6 None = Inr (decoded text6 table6 (replicate 18 0))"
  by (simp add: read_defs tile_defs decoded_def tile6_def text_defs table6_def)

subsection \<open>The example tiles, initialized\<close>

lemma env1_context: "global_context env1 = Some (GLContext 0)"
  by (simp add: env1_def)

lemma read_tables_default: "read_tables e arrayBuffer (Some 0) = read_tables e arrayBuffer None"
  by (simp add: read_tables_def defaultValue_def)

lemmas init_defs = initialize_def resolve_def get_positions_def get_colors_def get_normals_def
  property_def getGlobalProperty_def Let_def ComponentDatatype_def env1_context decoded_def

lemma init_tile1: "fst (initialize env1 content1 tile1 None) = None"
  by (simp add: init_defs read_tile1 table1_def split: prod.splits)

lemma init_tile2: "fst (initialize env1 content1 tile2 None) = None"
  by (simp add: init_defs read_tile2 table2_def split: prod.splits)

lemma init_tile3:
  "fst (initialize env1 content1 tile3 None) =
     Some (DeveloperError ''Either POSITION or POSITION_QUANTIZED must be defined.'')"
  by (simp add: init_defs read_tile3 table3_def split: prod.splits)

lemma init_tile4: "fst (initialize env1 content1 tile4 None) = None"
  by (simp add: init_defs read_tile4 table4_def split: prod.splits)

lemma init_tile6:
  "fst (initialize env1 content1 tile6 None) =
     Some (DeveloperError ''Global property: QUANTIZED_VOLUME_SCALE must be defined for quantized positions.'')"
  by (simp add: init_defs read_tile6 table6_def split: prod.splits)

subsection \<open>The claims on the example tiles\<close>

text \<open>
  C1 at the tile with version 2 in its header: a format failure, a
  \<^verbatim>\<open>DeveloperError\<close>, and nothing created or changed.
\<close>

theorem initialize_format_failure_witness:
  "format_failure env1 tile7 None
   \<and> well_sized tile7 None
   \<and> (\<exists>msg. fst (initialize env1 content1 tile7 None) = Some (DeveloperError msg))
   \<and> snd (snd (initialize env1 content1 tile7 None)) = []
   \<and> drawCommand (fst (snd (initialize env1 content1 tile7 None))) = None
   \<and> state (fst (snd (initialize env1 content1 tile7 None))) = LOADING"
proof -
  have ff: "format_failure env1 tile7 None"
    by (simp add: format_failure_def defaultValue_def getMagic_def getStringFromTypedArray_def
          getUint32_def fromCharCode_def tile7_def pnts_container_def uint32_bytes_def Let_def)
  have ws: "well_sized tile7 None"
    by (simp add: well_sized_def defaultValue_def getUint32_def tile7_def pnts_container_def
          uint32_bytes_def text1_def Let_def)
  have c: "drawCommand content1 = None" "state content1 = LOADING"
    by (simp_all add: content1_def request_def Points3DTileContent_def)
  from initialize_format_failure [of env1 tile7 None content1] ff ws c show ?thesis
    by auto
qed

text \<open>
  C1 as stated fails at the tile without position data: its magic is \<^verbatim>\<open>pnts\<close>, its
  version 1, its JSON length 19, its table has \<^verbatim>\<open>POINTS_LENGTH\<close>, and
  \<^verbatim>\<open>initialize\<close> throws a \<^verbatim>\<open>DeveloperError\<close> all the same.
\<close>

theorem initialize_format_failure_counterexample:
  "getMagic tile3 0 = ''pnts''
   \<and> getUint32 tile3 4 = Inr 1
   \<and> getUint32 tile3 12 = Inr 19
   \<and> map_sum id tableJSON (read_tables env1 tile3 None) = Inr table3
   \<and> defined (property table3 ''POINTS_LENGTH'')
   \<and> fst (initialize env1 content1 tile3 None)
       = Some (DeveloperError ''Either POSITION or POSITION_QUANTIZED must be defined.'')"
  by (simp add: read_tile3 init_tile3 decoded_def)
     (simp add: getMagic_def getStringFromTypedArray_def getUint32_def fromCharCode_def tile3_def
        pnts_container_def uint32_bytes_def text3_def property_def table3_def)

text \<open>
  C2 at three tiles: the one without position data, the one with quantized positions and
  no scale, and the one with quantized positions and their scale, on a content fresh
  from its constructor and its request.
\<close>

theorem position_resolution_witness:
  "fst (initialize env1 content1 tile3 None)
     = Some (DeveloperError ''Either POSITION or POSITION_QUANTIZED must be defined.'')
   \<and> fst (initialize env1 content1 tile6 None)
     = Some (DeveloperError
         ''Global property: QUANTIZED_VOLUME_SCALE must be defined for quantized positions.'')
   \<and> fst (initialize env1 content1 tile2 None) = None
   \<and> quantizedVolumeScale content1 = None
   \<and> defined (quantizedVolumeScale (fst (snd (initialize env1 content1 tile2 None))))"
proof -
  have a: "fst (initialize env1 content1 tile3 None)
     = Some (DeveloperError ''Either POSITION or POSITION_QUANTIZED must be defined.'')"
    using position_resolution [OF read_tile3, of content1]
    by (simp add: property_def table3_def decoded_def)
  have b: "fst (initialize env1 content1 tile6 None)
     = Some (DeveloperError
         ''Global property: QUANTIZED_VOLUME_SCALE must be defined for quantized positions.'')"
    using position_resolution [OF read_tile6, of content1]
    by (simp add: property_def table6_def decoded_def)
  have q: "quantizedVolumeScale content1 = None"
    by (simp add: content1_def request_def Points3DTileContent_def)
  have ok: "fst (initialize env1 content1 tile2 None) = None" by (rule init_tile2)
  note p = position_resolution [OF read_tile2, of content1]
  from p ok obtain r that where
    res: "resolve (decoded text2 table2 (replicate 30 255)) content1 = (Inr r, that)"
    and fin: "quantizedVolumeScale (fst (snd (initialize env1 content1 tile2 None)))
                = quantizedVolumeScale that"
    by auto
  from p res q have "defined (quantizedVolumeScale that)
      = (\<not> defined (property table2 ''POSITION'') \<and> defined (property table2 ''POSITION_QUANTIZED''))"
    by (auto simp: decoded_def)
  then have "defined (quantizedVolumeScale that)"
    by (simp add: property_def table2_def)
  with a b ok q fin show ?thesis by simp
qed

text \<open>
  C2 as stated fails at the tile that carries both \<^verbatim>\<open>POSITION\<close> and
  \<^verbatim>\<open>POSITION_QUANTIZED\<close> and no scale: the float positions win, and
  \<^verbatim>\<open>initialize\<close> returns normally.
\<close>

theorem position_resolution_counterexample:
  "map_sum id tableJSON (read_tables env1 tile4 None) = Inr table4
   \<and> defined (property table4 ''POSITION_QUANTIZED'')
   \<and> \<not> defined (property table4 ''QUANTIZED_VOLUME_SCALE'')
   \<and> fst (initialize env1 content1 tile4 None) = None"
  by (simp add: read_tile4 init_tile4 decoded_def) (simp add: property_def table4_def)

text \<open>
  C3, evaluated on the code at the tile with per-point RGB. The colour buffer is
  requested with the member \<^verbatim>\<open>UNISGNED_BYTE\<close> of the component types, which they do
  not have: the view handed to the colour attribute has an undefined component type,
  although the attribute itself is declared with unsigned bytes. The RGBA buffer of the
  second tile is requested as unsigned bytes, four per point.
\<close>

theorem rgb_component_type_undefined:
  "map_option (\<lambda>command. map vertexBuffer (attributes (vertexArray command)))
      (drawCommand (fst (snd (initialize env1 content1 tile5 None))))
     = Some [Some (TypedArray (Some FLOAT) (JNumber 0) (Some (PerPoint (Some (Json (JNumber 3))) 3))),
             Some (TypedArray None (JNumber 36) (Some (PerPoint (Some (Json (JNumber 3))) 3)))]
   \<and> map_option (\<lambda>command. map componentDatatype (attributes (vertexArray command)))
      (drawCommand (fst (snd (initialize env1 content1 tile5 None))))
     = Some [Some FLOAT, Some UNSIGNED_BYTE]
   \<and> ComponentDatatype ''UNISGNED_BYTE'' = None
   \<and> map_option (\<lambda>command. map vertexBuffer (attributes (vertexArray command)))
      (drawCommand (fst (snd (initialize env1 content1 tile2 None))))
     = Some [Some (TypedArray (Some UNSIGNED_SHORT) (JNumber 0)
                     (Some (PerPoint (Some (Json (JNumber 3))) 3))),
             Some (TypedArray (Some UNSIGNED_BYTE) (JNumber 18)
                     (Some (PerPoint (Some (Json (JNumber 3))) 4)))]"
  by (simp add: init_defs read_tile5 read_tile2 table5_def table2_def build_drawCommand_def
        build_attributes_def split: prod.splits)

text \<open>
  C4 at the first tile: \<^verbatim>\<open>initialize\<close> returns normally and the draw command counts
  three points.
\<close>

theorem vertex_count_is_pointsLength_witness:
  "fst (initialize env1 content1 tile1 None) = None
   \<and> (\<exists>command. drawCommand (fst (snd (initialize env1 content1 tile1 None))) = Some command
         \<and> count command = Some (Json (JNumber 3)) \<and> primitiveType command = POINTS)"
proof -
  have h: "fst (initialize env1 content1 tile1 None) = None" by (rule init_tile1)
  from vertex_count_is_pointsLength [OF h] obtain t command where
    t: "read_tables env1 tile1 None = Inr t"
    and c: "drawCommand (fst (snd (initialize env1 content1 tile1 None))) = Some command"
    and n: "count command = getGlobalProperty
              (Cesium3DTileFeatureTableResources (tableJSON t) (tableBinary t)) ''POINTS_LENGTH'' None None"
    and p: "primitiveType command = POINTS"
    by blast
  from t have "tableJSON t = table1" by (auto simp: read_tile1 decoded_def)
  with n have "count command = Some (Json (JNumber 3))"
    by (simp add: getGlobalProperty_def Cesium3DTileFeatureTableResources_def table1_def)
  with h c p show ?thesis by blast
qed

text \<open>
  C10 at the first tile, read from offset 0: a JSON text of 47 bytes from byte 20 on and
  a blob of 36 bytes behind it.
\<close>

theorem feature_table_offsets_witness:
  "read_tables env1 tile1 (Some 0) \<noteq> Inl RangeError
   \<and> (\<exists>n m. getUint32 tile1 12 = Inr n \<and> getUint32 tile1 16 = Inr m
         \<and> unat n = 47 \<and> unat m = 36
         \<and> map fromCharCode (take (unat n) (drop 20 tile1)) = text1
         \<and> take (unat m) (drop (20 + unat n) tile1) = replicate 36 0)"
proof -
  let ?t = "decoded text1 table1 (replicate 36 0)"
  have h: "read_tables env1 tile1 (Some 0) = Inr ?t"
    by (simp only: read_tables_default read_tile1)
  from feature_table_offsets [OF h] obtain n m where
    n: "getUint32 tile1 (0 + 12) = Inr n" and m: "getUint32 tile1 (0 + 16) = Inr m"
    and s: "tableString ?t = map fromCharCode (take (unat n) (drop (0 + 20) tile1))"
    and b: "tableBinary ?t = take (unat m) (drop (0 + 20 + unat n) tile1)"
    and o: "binaryByteOffset ?t = 0 + 20 + unat n" "endByteOffset ?t = 0 + 20 + unat n + unat m"
    by blast
  from o have "unat n = 47" "unat m = 36" by (simp_all add: decoded_def text1_def)
  with n m s b h show ?thesis by (auto simp: decoded_def)
qed

text \<open>
  C10 as stated fails at the first tile: the JSON text is read from byte 20, and the
  bytes from byte 28 on are another text.
\<close>

theorem feature_table_offsets_counterexample:
  "map_sum id jsonByteOffset (read_tables env1 tile1 (Some 0)) = Inr 20
   \<and> map_sum id tableString (read_tables env1 tile1 (Some 0)) = Inr text1
   \<and> getStringFromTypedArray tile1 (0 + 28) (length text1) \<noteq> text1"
  by (simp add: read_tables_default read_tile1 decoded_def)
     (simp add: getStringFromTypedArray_def tile1_def pnts_container_def uint32_bytes_def text1_def
        fromCharCode_def)

subsection \<open>A fetch that resolves after the content was destroyed\<close>

text \<open>
  C9, as amended. When the fetch resolves on a destroyed content, \<^verbatim>\<open>initialize\<close>
  does not run: nothing is created, and the draw command stays as it was. The function
  rejects with the reason \<^verbatim>\<open>tileset is destroyed\<close>, and the error handler of the same
  chain takes the rejection: it sets the state to failed and rejects the ready promise
  with that reason. The chain itself ends fulfilled, so nothing reaches the caller.
\<close>

theorem destroyed_settle:
  assumes "isDestroyed that"
  shows "settle e that (Inr arrayBuffer) =
           (None, that\<lparr>state := FAILED,
                        readyPromise := reject (Reason ''tileset is destroyed'') (readyPromise that)\<rparr>, [])"
  using assms by (simp add: settle_def on_fulfilled_def on_rejected_def Let_def)

text \<open>C9 at a content destroyed while its request was pending.\<close>

theorem destroyed_settle_witness:
  "isDestroyed (destroy content1)
   \<and> settle env1 (destroy content1) (Inr tile1) =
       (None, (destroy content1)\<lparr>state := FAILED,
                                   readyPromise := Rejected (Reason ''tileset is destroyed'')\<rparr>, [])"
proof -
  have h: "isDestroyed (destroy content1)" by (simp add: isDestroyed_def destroy_def)
  have p: "readyPromise (destroy content1) = Pending"
    by (simp add: destroy_def content1_def request_def Points3DTileContent_def)
  from destroyed_settle [OF h, of env1 tile1] h p show ?thesis by simp
qed

text \<open>
  C9 as stated fails there: the state goes from loading to failed, and the ready promise
  from pending to rejected.
\<close>

theorem destroyed_settle_counterexample:
  "state (destroy content1) = LOADING
   \<and> readyPromise (destroy content1) = Pending
   \<and> state (fst (snd (settle env1 (destroy content1) (Inr tile1)))) = FAILED
   \<and> readyPromise (fst (snd (settle env1 (destroy content1) (Inr tile1))))
       = Rejected (Reason ''tileset is destroyed'')"
  by (simp add: settle_def on_fulfilled_def on_rejected_def isDestroyed_def destroy_def content1_def
        request_def Points3DTileContent_def Let_def)

end
